theory Spec2Isabelle
  imports Main "HOL-Library.Word"
begin

unbundle bit_operations_syntax

section \<open>The snescon GPIO gamepad driver (snescon\_gpio\_rpi.c)\<close>

text \<open>
  A shallow embedding of the decode and multiplexing core of the driver:
  \<open>pads_read\<close>, \<open>fourscore_connected\<close>, \<open>pads_clear\<close>, \<open>pads_update\<close>, and of the
  start-up path \<open>snescon_init\<close> with \<open>gpio_valid\<close>, \<open>gpio_list_valid\<close>,
  \<open>gpio_get_bit\<close> and \<open>pads_setup\<close>.

  C types: \<open>unsigned int\<close> is \<open>32 word\<close>, \<open>unsigned char\<close> is \<open>8 word\<close>. The fixed-size
  arrays of the structs (\<open>gpio[7]\<close>, \<open>pad[5]\<close>, \<open>gpio_id[7]\<close>) are functions from the
  index; in \<open>pads_update\<close>, \<open>pads_clear\<close> and \<open>pads_setup\<close> every access whose index
  is computed at run time is checked against the array's size and is a \<open>fault\<close>
  when it is out of range (undefined behaviour in C).
\<close>

subsection \<open>Constants\<close>

definition DELAY :: nat where "DELAY = 6"
definition BUFFER_SIZE :: nat where "BUFFER_SIZE = 24"
definition BITS_LENGTH :: nat where "BITS_LENGTH = 24"
definition MAX_NUMBER_OF_GPIOS :: nat where "MAX_NUMBER_OF_GPIOS = 7"
definition MIN_NUMBER_OF_GPIOS :: nat where "MIN_NUMBER_OF_GPIOS = 3"
definition NUMBER_OF_INPUT_DEVICES :: nat where "NUMBER_OF_INPUT_DEVICES = 5"

subsection \<open>The GPIO register block\<close>

text \<open>
  The driver writes the set and clear registers, reads the level register and
  busy-waits with \<open>udelay\<close>. The hardware is a state that logs these operations in
  program order; \<open>lev hw k\<close> is the content of the level register at the
  \<open>k\<close>-th read.
\<close>

datatype gpio_op =
    GPIO_SET "32 word"    \<comment> \<open>\<open>*(gpio + 7) = mask\<close>\<close>
  | GPIO_CLR "32 word"    \<comment> \<open>\<open>*(gpio + 10) = mask\<close>\<close>
  | GPIO_LEV              \<comment> \<open>a read of \<open>*(gpio + 13)\<close>\<close>
  | UDELAY nat            \<comment> \<open>\<open>udelay(n)\<close>\<close>

record gpio_hw =
  lev :: "nat \<Rightarrow> 32 word"
  nreads :: nat
  ops :: "gpio_op list"

definition gpio_set :: "32 word \<Rightarrow> gpio_hw \<Rightarrow> gpio_hw" where
  "gpio_set g_bit hw = hw\<lparr>ops := ops hw @ [GPIO_SET g_bit]\<rparr>"

definition gpio_clear :: "32 word \<Rightarrow> gpio_hw \<Rightarrow> gpio_hw" where
  "gpio_clear g_bit hw = hw\<lparr>ops := ops hw @ [GPIO_CLR g_bit]\<rparr>"

definition udelay :: "nat \<Rightarrow> gpio_hw \<Rightarrow> gpio_hw" where
  "udelay n hw = hw\<lparr>ops := ops hw @ [UDELAY n]\<rparr>"

text \<open>\<open>gpio_read_all\<close> returns the negated level register.\<close>

definition gpio_read_all :: "gpio_hw \<Rightarrow> 32 word \<times> gpio_hw" where
  "gpio_read_all hw =
     (NOT (lev hw (nreads hw)),
      hw\<lparr>nreads := Suc (nreads hw), ops := ops hw @ [GPIO_LEV]\<rparr>)"

subsection \<open>Valid GPIO numbers\<close>

definition all_valid_gpio :: "8 word list" where
  "all_valid_gpio =
     [0, 1, 2, 3, 4, 5, 6, 7, 8, 9, 10, 11, 12, 13, 14, 15, 16, 17, 18, 19,
      20, 21, 22, 23, 24, 25, 26, 27]"

text \<open>
  \<open>gpio_valid\<close> takes an \<open>unsigned char\<close> and scans the table; the result is 1 at the
  first match and 0 when the scan ends.
\<close>

fun gpio_valid_scan :: "8 word \<Rightarrow> 8 word list \<Rightarrow> bool" where
  "gpio_valid_scan g_id [] = False"
| "gpio_valid_scan g_id (v # vs) = (if g_id = v then True else gpio_valid_scan g_id vs)"

definition gpio_valid :: "8 word \<Rightarrow> bool" where
  "gpio_valid g_id = gpio_valid_scan g_id all_valid_gpio"

text \<open>
  \<open>gpio_list_valid\<close> takes a pointer to \<open>unsigned int\<close> and an \<open>unsigned char\<close> length.
  Each element \<open>list[i]\<close> is passed to \<open>gpio_valid\<close>, whose parameter is an
  \<open>unsigned char\<close>: the call converts the \<open>unsigned int\<close> to 8 bits (\<open>ucast\<close>).
  The loop returns 0 at the first invalid element. Its caller has checked that
  the length is at most the size of the array.
\<close>

fun gpio_list_valid_from :: "(nat \<Rightarrow> 32 word) \<Rightarrow> nat list \<Rightarrow> bool" where
  "gpio_list_valid_from list [] = True"
| "gpio_list_valid_from list (i # is) =
     (if \<not> gpio_valid (ucast (list i)) then False else gpio_list_valid_from list is)"

definition gpio_list_valid :: "(nat \<Rightarrow> 32 word) \<Rightarrow> 8 word \<Rightarrow> bool" where
  "gpio_list_valid list len = gpio_list_valid_from list [0..<unat len]"

text \<open>
  \<open>gpio_get_bit\<close> is \<open>1 << g_id\<close> on an \<open>unsigned char\<close>. It is only called on
  identifiers that passed \<open>gpio_valid\<close>, so the shift count is below 28.
\<close>

definition gpio_get_bit :: "8 word \<Rightarrow> 32 word" where
  "gpio_get_bit g_id = push_bit (unat g_id) 1"

subsection \<open>The pad configuration and the input events\<close>

text \<open>A \<open>struct input_dev *\<close>: \<open>NULL\<close> or the address of an allocated device.\<close>

datatype input_dev = NULL | Dev nat

datatype btn = BTN_A | BTN_B | BTN_SELECT | BTN_START | BTN_X | BTN_Y | BTN_TL | BTN_TR

datatype axis = ABS_X | ABS_Y

text \<open>
  The calls into the input subsystem, with the arguments the driver passes:
  \<open>input_report_key(dev, code, value)\<close>, \<open>input_report_abs(dev, code, value)\<close> and
  \<open>input_sync(dev)\<close>. The key value is the masked sample as the driver computes
  it; the input subsystem takes it as pressed when it is not zero.
\<close>

datatype event =
    Key input_dev btn "32 word"
  | Abs input_dev axis int
  | Sync input_dev

text \<open>
  \<open>struct pads_config\<close>. The fields \<open>device_name\<close>, \<open>open\<close> and \<open>close\<close> are only
  copied into the devices at registration and are left out.
\<close>

record pads_config =
  gpio :: "nat \<Rightarrow> 32 word"       \<comment> \<open>\<open>unsigned int gpio[MAX_NUMBER_OF_GPIOS]\<close>\<close>
  pad :: "nat \<Rightarrow> input_dev"       \<comment> \<open>\<open>struct input_dev *pad[NUMBER_OF_INPUT_DEVICES]\<close>\<close>
  n_pads :: "8 word"
  n_pad_gpios :: "8 word"
  player_mode :: "8 word"
  fourscore_enabled :: bool

definition nes_btn_label :: "btn list" where
  "nes_btn_label = [BTN_A, BTN_B, BTN_SELECT, BTN_START, BTN_X, BTN_Y, BTN_TL, BTN_TR]"

definition snes_btn_label :: "btn list" where
  "snes_btn_label = [BTN_B, BTN_Y, BTN_SELECT, BTN_START, BTN_A, BTN_X, BTN_TL, BTN_TR]"

definition btn_index :: "nat list" where
  "btn_index = [0, 1, 2, 3, 8, 9, 10, 11]"

subsection \<open>Capturing a frame: \<open>pads_read\<close>\<close>

text \<open>
  One iteration of the loop of \<open>pads_read\<close>, for the index \<open>i\<close>: wait, drop the
  clock, store the sample in \<open>data[i]\<close>, wait, raise the clock.
\<close>

definition pads_read_step :: "32 word \<Rightarrow> nat \<Rightarrow> 32 word list \<times> gpio_hw \<Rightarrow> 32 word list \<times> gpio_hw" where
  "pads_read_step clk i s =
     (case s of (data, hw) \<Rightarrow>
        (let hw1 = udelay DELAY hw;
             hw2 = gpio_clear clk hw1;
             (v, hw3) = gpio_read_all hw2;
             data' = data[i := v];
             hw4 = udelay DELAY hw3;
             hw5 = gpio_set clk hw4
         in (data', hw5)))"

text \<open>
  \<open>pads_read\<close> writes \<open>data[0]\<close> to \<open>data[BITS_LENGTH - 1]\<close> of the buffer it is given.
  Its only caller passes a buffer of \<open>BUFFER_SIZE = BITS_LENGTH\<close> cells.
\<close>

definition pads_read :: "pads_config \<Rightarrow> 32 word list \<Rightarrow> gpio_hw \<Rightarrow> 32 word list \<times> gpio_hw" where
  "pads_read cfg data hw =
     (let clk = gpio cfg 0;
          latch = gpio cfg 1;
          hw1 = gpio_set (clk OR latch) hw;
          hw2 = udelay (DELAY * 2) hw1;
          hw3 = gpio_clear latch hw2
      in fold (pads_read_step clk) [0..<BITS_LENGTH] (data, hw3))"

subsection \<open>Detecting the FourScore\<close>

text \<open>
  An out-of-range array index: undefined behaviour in C, a fault in the model.
\<close>

datatype fault = OutOfBounds

text \<open>C's \<open>!x\<close> on an \<open>unsigned int\<close>: 1 when \<open>x\<close> is zero, 0 otherwise.\<close>

definition lnot :: "32 word \<Rightarrow> int" where
  "lnot x = (if x = 0 then 1 else 0)"

text \<open>
  \<open>fourscore_connected\<close>: a conjunction of sixteen tests of \<open>gpio[2]\<close> and \<open>gpio[3]\<close>
  against \<open>data[16]\<close> to \<open>data[23]\<close>. A bare operand \<open>(g & d)\<close> is true when it is
  not zero, \<open>!(g & d)\<close> when it is zero.
\<close>

definition fourscore_connected :: "pads_config \<Rightarrow> 32 word list \<Rightarrow> bool" where
  "fourscore_connected cfg data \<longleftrightarrow>
     (gpio cfg 2 AND data ! 16) = 0 \<and> (gpio cfg 3 AND data ! 16) = 0 \<and>
     (gpio cfg 2 AND data ! 17) = 0 \<and> (gpio cfg 3 AND data ! 17) = 0 \<and>
     (gpio cfg 2 AND data ! 18) = 0 \<and> (gpio cfg 3 AND data ! 18) \<noteq> 0 \<and>
     (gpio cfg 2 AND data ! 19) \<noteq> 0 \<and> (gpio cfg 3 AND data ! 19) = 0 \<and>
     (gpio cfg 2 AND data ! 20) = 0 \<and> (gpio cfg 3 AND data ! 20) = 0 \<and>
     (gpio cfg 2 AND data ! 21) = 0 \<and> (gpio cfg 3 AND data ! 21) = 0 \<and>
     (gpio cfg 2 AND data ! 22) = 0 \<and> (gpio cfg 3 AND data ! 22) = 0 \<and>
     (gpio cfg 2 AND data ! 23) = 0 \<and> (gpio cfg 3 AND data ! 23) = 0"

text \<open>
  The signature in the words of the specification: of the sixteen tested bits,
  two lines at the sample positions 16 to 23, every one is low except that one
  line is high at position 18 and the other line is high at position 19.
\<close>

definition fourscore_signature :: "32 word \<Rightarrow> 32 word \<Rightarrow> 32 word list \<Rightarrow> bool" where
  "fourscore_signature line18 line19 data =
     list_all (\<lambda>k. ((line18 AND data ! k) \<noteq> 0) = (k = 18)
                  \<and> ((line19 AND data ! k) \<noteq> 0) = (k = 19)) [16..<24]"

subsection \<open>Clearing unused pads: \<open>pads_clear\<close>\<close>

text \<open>The body of the loop of \<open>pads_clear\<close> for one device.\<close>

definition pad_clear_report :: "input_dev \<Rightarrow> event list" where
  "pad_clear_report dev =
     map (\<lambda>j. Key dev (snes_btn_label ! j) 0) [0..<8]
     @ [Abs dev ABS_X 0, Abs dev ABS_Y 0, Sync dev]"

text \<open>
  The loop of \<open>pads_clear\<close> over \<open>i\<close>. The index \<open>(cfg->n_pads - 1) - i\<close> is computed
  on \<open>int\<close> and can leave the array \<open>pad[NUMBER_OF_INPUT_DEVICES]\<close>.
\<close>

fun pads_clear_from :: "pads_config \<Rightarrow> nat list \<Rightarrow> fault + event list" where
  "pads_clear_from cfg [] = Inr []"
| "pads_clear_from cfg (i # is) =
     (let idx = (uint (n_pads cfg) - 1) - int i
      in if 0 \<le> idx \<and> idx < int NUMBER_OF_INPUT_DEVICES then
           (case pads_clear_from cfg is of
              Inl e \<Rightarrow> Inl e
            | Inr evs \<Rightarrow> Inr (pad_clear_report (pad cfg (nat idx)) @ evs))
         else Inl OutOfBounds)"

definition pads_clear :: "pads_config \<Rightarrow> 8 word \<Rightarrow> fault + event list" where
  "pads_clear cfg n_devs = pads_clear_from cfg [0..<unat n_devs]"

subsection \<open>Decoding a frame: \<open>pads_update\<close>\<close>

text \<open>The SNES branch of the loop over the gamepads (the body of \<open>if ((g & data[16]) == 1)\<close>).\<close>

definition pad_report_snes :: "input_dev \<Rightarrow> 32 word \<Rightarrow> 32 word list \<Rightarrow> event list" where
  "pad_report_snes dev g data =
     map (\<lambda>j. Key dev (snes_btn_label ! j) (g AND data ! (btn_index ! j))) [0..<8]
     @ [Abs dev ABS_X (lnot (g AND data ! 6) - lnot (g AND data ! 7)),
        Abs dev ABS_Y (lnot (g AND data ! 4) - lnot (g AND data ! 5)),
        Sync dev]"

text \<open>The NES branch (the \<open>else\<close>): four buttons from the frame, four cleared.\<close>

definition pad_report_nes :: "input_dev \<Rightarrow> 32 word \<Rightarrow> 32 word list \<Rightarrow> event list" where
  "pad_report_nes dev g data =
     map (\<lambda>j. Key dev (nes_btn_label ! j) (g AND data ! (btn_index ! j))) [0..<4]
     @ map (\<lambda>j. Key dev (nes_btn_label ! j) 0) [4..<8]
     @ [Abs dev ABS_X (lnot (g AND data ! 6) - lnot (g AND data ! 7)),
        Abs dev ABS_Y (lnot (g AND data ! 4) - lnot (g AND data ! 5)),
        Sync dev]"

text \<open>
  The loop \<open>for (i = 0; i < cfg->n_pad_gpios; i++)\<close>: slot \<open>i\<close> is \<open>pad[i]\<close> with the
  mask \<open>gpio[i + 2]\<close>; \<open>gamepad_report\<close> is the body of the loop.
\<close>

definition gamepad_report :: "pads_config \<Rightarrow> 32 word list \<Rightarrow> nat \<Rightarrow> event list" where
  "gamepad_report cfg data i =
     (let dev = pad cfg i;
          g = gpio cfg (i + 2)
      in if (g AND data ! 16) = 1 then pad_report_snes dev g data
         else pad_report_nes dev g data)"

fun update_gamepads :: "pads_config \<Rightarrow> 32 word list \<Rightarrow> nat list \<Rightarrow> fault + event list" where
  "update_gamepads cfg data [] = Inr []"
| "update_gamepads cfg data (i # is) =
     (if i < NUMBER_OF_INPUT_DEVICES \<and> i + 2 < MAX_NUMBER_OF_GPIOS then
        (case update_gamepads cfg data is of
           Inl e \<Rightarrow> Inl e
         | Inr rest \<Rightarrow> Inr (gamepad_report cfg data i @ rest))
      else Inl OutOfBounds)"

text \<open>The FourScore loops: players 1 and 2 (\<open>i = 0, 1\<close>), players 3 and 4 (\<open>i = 2, 3\<close>).\<close>

definition fourscore_report_12 :: "pads_config \<Rightarrow> 32 word list \<Rightarrow> nat \<Rightarrow> event list" where
  "fourscore_report_12 cfg data i =
     (let dev = pad cfg i; g = gpio cfg (i + 2)
      in map (\<lambda>j. Key dev (nes_btn_label ! j) (g AND data ! (btn_index ! j))) [0..<4]
         @ [Abs dev ABS_X (lnot (g AND data ! 6) - lnot (g AND data ! 7)),
            Abs dev ABS_Y (lnot (g AND data ! 4) - lnot (g AND data ! 5)),
            Sync dev])"

definition fourscore_report_34 :: "pads_config \<Rightarrow> 32 word list \<Rightarrow> nat \<Rightarrow> event list" where
  "fourscore_report_34 cfg data i =
     (let dev = pad cfg i; g = gpio cfg i
      in map (\<lambda>j. Key dev (nes_btn_label ! j) (g AND data ! (btn_index ! j + 8))) [0..<4]
         @ [Abs dev ABS_X (lnot (g AND data ! 14) - lnot (g AND data ! 15)),
            Abs dev ABS_Y (lnot (g AND data ! 12) - lnot (g AND data ! 13)),
            Sync dev])"

text \<open>
  The FourScore branch of \<open>pads_update\<close>: the two loops, then the player mode.
\<close>

definition update_fourscore :: "pads_config \<Rightarrow> 32 word list \<Rightarrow> fault + pads_config \<times> event list" where
  "update_fourscore cfg data =
     (let evs = concat (map (fourscore_report_12 cfg data) [0..<2])
                @ concat (map (fourscore_report_34 cfg data) [2..<4])
      in if player_mode cfg > 4 then
           (let cfg' = cfg\<lparr>player_mode := 4\<rparr>
            in case pads_clear cfg' 1 of
                 Inl e \<Rightarrow> Inl e
               | Inr cl \<Rightarrow> Inr (cfg', evs @ cl))
         else if player_mode cfg < 4 then Inr (cfg\<lparr>player_mode := 4\<rparr>, evs)
         else Inr (cfg, evs))"

text \<open>
  The plain branch: the loop over the gamepads, then the player mode. The
  argument \<open>cfg->n_pads - cfg->n_pad_gpios\<close> of \<open>pads_clear\<close> is converted to
  \<open>unsigned char\<close>, which is the subtraction of \<open>8 word\<close>.
\<close>

definition update_plain :: "pads_config \<Rightarrow> 32 word list \<Rightarrow> fault + pads_config \<times> event list" where
  "update_plain cfg data =
     (case update_gamepads cfg data [0..<unat (n_pad_gpios cfg)] of
        Inl e \<Rightarrow> Inl e
      | Inr evs \<Rightarrow>
          if player_mode cfg > n_pad_gpios cfg then
            (let cfg' = cfg\<lparr>player_mode := n_pad_gpios cfg\<rparr>
             in case pads_clear cfg' (n_pads cfg' - n_pad_gpios cfg') of
                  Inl e \<Rightarrow> Inl e
                | Inr cl \<Rightarrow> Inr (cfg', evs @ cl))
          else Inr (cfg, evs))"

text \<open>
  \<open>pads_update\<close>: capture a frame into the local buffer \<open>data[BUFFER_SIZE]\<close>, then
  decode it on one of the two branches. The local buffer is not initialised in
  C; \<open>pads_read\<close> overwrites every cell of it (lemma \<open>pads_read_frame\<close>), so its
  first content is taken as zero. The result is the updated configuration, the
  hardware state and the events sent to the input subsystem, in order.
\<close>

definition pads_update :: "pads_config \<Rightarrow> gpio_hw \<Rightarrow> fault + pads_config \<times> gpio_hw \<times> event list" where
  "pads_update cfg hw =
     (case pads_read cfg (replicate BUFFER_SIZE 0) hw of (data, hw') \<Rightarrow>
        (case (if fourscore_enabled cfg \<and> fourscore_connected cfg data
               then update_fourscore cfg data
               else update_plain cfg data) of
           Inl e \<Rightarrow> Inl e
         | Inr (cfg', evs) \<Rightarrow> Inr (cfg', hw', evs)))"

text \<open>The frame that a poll starting in the hardware state \<open>hw\<close> captures.\<close>

definition frame :: "gpio_hw \<Rightarrow> 32 word list" where
  "frame hw = map (\<lambda>i. NOT (lev hw (nreads hw + i))) [0..<BITS_LENGTH]"

subsection \<open>Start-up: \<open>pads_setup\<close> and \<open>snescon_init\<close>\<close>

text \<open>
  The kernel services that start-up calls and that can fail: \<open>ioremap\<close> in
  \<open>gpio_init\<close>, and for the pad \<open>i\<close> \<open>input_allocate_device\<close> (\<open>NULL\<close> when out of
  memory), \<open>kzalloc\<close> and \<open>input_register_device\<close> (a status, 0 on success).
\<close>

record kernel_env =
  ioremap_ok :: bool
  allocate_device :: "nat \<Rightarrow> input_dev"
  kzalloc_ok :: "nat \<Rightarrow> bool"
  register_device :: "nat \<Rightarrow> int"

text \<open>The error numbers of the kernel's \<open>errno\<close> headers.\<close>

definition ENOMEM :: int where "ENOMEM = 12"
definition EBUSY :: int where "EBUSY = 16"
definition EINVAL :: int where "EINVAL = 22"

text \<open>
  The loop of \<open>pads_setup\<close>, \<open>for (i = 0; (i < cfg->n_pads) && (status == 0); ++i)\<close>:
  allocate the device, allocate its name, register it; a failed registration
  frees the device and stores \<open>NULL\<close>. The state is the configuration and
  \<open>status\<close>.
\<close>

fun pads_setup_from :: "kernel_env \<Rightarrow> nat list \<Rightarrow> pads_config \<times> int \<Rightarrow> fault + pads_config \<times> int" where
  "pads_setup_from env [] s = Inr s"
| "pads_setup_from env (i # is) s =
     (case s of (cfg, status) \<Rightarrow>
        if status \<noteq> 0 then Inr (cfg, status)
        else if \<not> i < NUMBER_OF_INPUT_DEVICES then Inl OutOfBounds
        else
          (let cfg1 = cfg\<lparr>pad := (pad cfg)(i := allocate_device env i)\<rparr>;
               status1 = (if pad cfg1 i = NULL then - ENOMEM else status);
               status2 = (if status1 = 0 then (if \<not> kzalloc_ok env i then - ENOMEM else status1)
                          else status1);
               s3 = (if status2 = 0 then
                       (let st = register_device env i
                        in if st \<noteq> 0 then (cfg1\<lparr>pad := (pad cfg1)(i := NULL)\<rparr>, st)
                           else (cfg1, st))
                     else (cfg1, status2))
           in pads_setup_from env is s3))"

text \<open>
  \<open>pads_setup\<close> returns the status. After the loop it configures the pins
  (\<open>pads_setup_gpio\<close>), which writes the function-select registers only.
\<close>

definition pads_setup :: "pads_config \<Rightarrow> kernel_env \<Rightarrow> fault + pads_config \<times> int" where
  "pads_setup cfg env = pads_setup_from env [0..<unat (n_pads cfg)] (cfg, 0)"

text \<open>
  \<open>struct snescon_config\<close>: the pad configuration and the module parameter
  \<open>gpio\<close> (\<open>gpio_id\<close> with its count). The timer, the mutex and the usage counter
  are left out.
\<close>

record snescon_config =
  pads_cfg :: pads_config
  gpio_id :: "nat \<Rightarrow> 32 word"     \<comment> \<open>\<open>unsigned int gpio_id[MAX_NUMBER_OF_GPIOS]\<close>\<close>
  gpio_id_cnt :: "32 word"

text \<open>
  The static \<open>snescon_config\<close> after the module parameters are applied: the listed
  identifiers replace the defaults \<open>{2, 3, 4, 7, 9, 10, 11}\<close>, every field without
  an initialiser is zero.
\<close>

definition snescon_config_load :: "32 word list \<Rightarrow> bool \<Rightarrow> snescon_config" where
  "snescon_config_load ids fourscore =
     \<lparr>pads_cfg = \<lparr>gpio = (\<lambda>i. 0), pad = (\<lambda>i. NULL), n_pads = 0, n_pad_gpios = 0,
                  player_mode = 0, fourscore_enabled = fourscore\<rparr>,
      gpio_id = (\<lambda>i. if i < length ids then ids ! i
                      else if i < 7 then [2, 3, 4, 7, 9, 10, 11] ! i else 0),
      gpio_id_cnt = of_nat (length ids)\<rparr>"

text \<open>
  \<open>snescon_init\<close> returns 0 or a negative error number. The result here is that
  status with the configuration as \<open>snescon_init\<close> leaves it. The loop that fills
  \<open>pads_cfg.gpio\<close> runs after the count was checked to be at most
  \<open>MAX_NUMBER_OF_GPIOS\<close>.
\<close>

definition snescon_init :: "snescon_config \<Rightarrow> kernel_env \<Rightarrow> fault + int \<times> snescon_config" where
  "snescon_init sc env =
     (if gpio_id_cnt sc < of_nat MIN_NUMBER_OF_GPIOS then Inr (- EINVAL, sc)
      else if gpio_id_cnt sc > of_nat MAX_NUMBER_OF_GPIOS then Inr (- EINVAL, sc)
      else if fourscore_enabled (pads_cfg sc)
              \<and> gpio_id_cnt sc < of_nat (MIN_NUMBER_OF_GPIOS + 1) then Inr (- EINVAL, sc)
      else if \<not> gpio_list_valid (gpio_id sc) (ucast (gpio_id_cnt sc)) then Inr (- EINVAL, sc)
      else
        (let cfg = pads_cfg sc;
             cfg1 = (if fourscore_enabled cfg \<and> gpio_id_cnt sc < 4
                     then cfg\<lparr>n_pads := 4\<rparr>
                     else cfg\<lparr>n_pads := ucast (gpio_id_cnt sc - 2)\<rparr>);
             cfg2 = cfg1\<lparr>n_pad_gpios := ucast (gpio_id_cnt sc - 2)\<rparr>;
             cfg3 = fold (\<lambda>i c. c\<lparr>gpio := (gpio c)(i := gpio_get_bit (ucast (gpio_id sc i)))\<rparr>)
                      [0..<unat (gpio_id_cnt sc)] cfg2
         in if \<not> ioremap_ok env then Inr (- EBUSY, sc\<lparr>pads_cfg := cfg3\<rparr>)
            else
              (case pads_setup cfg3 env of
                 Inl e \<Rightarrow> Inl e
               | Inr (cfg4, status) \<Rightarrow> Inr (status, sc\<lparr>pads_cfg := cfg4\<rparr>))))"

subsection \<open>Observing a poll, and concrete configurations\<close>

text \<open>The events of a poll and the configuration after it; \<open>None\<close> for a fault.\<close>

definition dispatched :: "fault + pads_config \<times> gpio_hw \<times> event list \<Rightarrow> event list option" where
  "dispatched r = (case r of Inl e \<Rightarrow> None | Inr (cfg, hw, evs) \<Rightarrow> Some evs)"

definition config_after :: "fault + pads_config \<times> gpio_hw \<times> event list \<Rightarrow> pads_config option" where
  "config_after r = (case r of Inl e \<Rightarrow> None | Inr (cfg, hw, evs) \<Rightarrow> Some cfg)"

text \<open>
  Hardware on which the next poll captures the samples \<open>d 0, d 1, \<dots>\<close> (the level
  register holds their complement), and hardware with every line high.
\<close>

definition hw_of_samples :: "(nat \<Rightarrow> 32 word) \<Rightarrow> gpio_hw" where
  "hw_of_samples d = \<lparr>lev = (\<lambda>k. NOT (d k)), nreads = 0, ops = []\<rparr>"

definition hw_idle :: gpio_hw where
  "hw_idle = hw_of_samples (\<lambda>k. 0)"

text \<open>A kernel in which every allocation and registration succeeds.\<close>

definition env_ok :: kernel_env where
  "env_ok = \<lparr>ioremap_ok = True, allocate_device = Dev, kzalloc_ok = (\<lambda>i. True),
             register_device = (\<lambda>i. 0)\<rparr>"

text \<open>
  The pad configurations that \<open>snescon_init\<close> builds for \<open>gpio=2,3,4\<close>, for
  \<open>gpio=2,3,4,7 fourscore=1\<close> and for \<open>gpio=2,3,4,7,9 fourscore=1\<close> (lemmas
  \<open>snescon_init_3pin\<close>, \<open>snescon_init_4pin\<close>, \<open>snescon_init_5pin\<close>).
\<close>

definition cfg_3pin :: pads_config where
  "cfg_3pin =
     \<lparr>gpio = (\<lambda>i. 0)(0 := 4, 1 := 8, 2 := 16),
      pad = (\<lambda>i. NULL)(0 := Dev 0),
      n_pads = 1, n_pad_gpios = 1, player_mode = 0, fourscore_enabled = False\<rparr>"

definition cfg_4pin :: pads_config where
  "cfg_4pin =
     \<lparr>gpio = (\<lambda>i. 0)(0 := 4, 1 := 8, 2 := 16, 3 := 128),
      pad = (\<lambda>i. NULL)(0 := Dev 0, 1 := Dev 1),
      n_pads = 2, n_pad_gpios = 2, player_mode = 0, fourscore_enabled = True\<rparr>"

definition cfg_5pin :: pads_config where
  "cfg_5pin =
     \<lparr>gpio = (\<lambda>i. 0)(0 := 4, 1 := 8, 2 := 16, 3 := 128, 4 := 512),
      pad = (\<lambda>i. NULL)(0 := Dev 0, 1 := Dev 1, 2 := Dev 2),
      n_pads = 3, n_pad_gpios = 3, player_mode = 0, fourscore_enabled = True\<rparr>"

text \<open>
  A frame that carries the FourScore signature for the masks of \<open>cfg_4pin\<close> and
  \<open>cfg_5pin\<close>: \<open>gpio[3]\<close> is \<open>1 << 7\<close>, \<open>gpio[2]\<close> is \<open>1 << 4\<close>.
\<close>

definition hw_fourscore :: gpio_hw where
  "hw_fourscore = hw_of_samples (\<lambda>k. if k = 18 then 128 else if k = 19 then 16 else 0)"

text \<open>
  Frames for a pad on GPIO 4 (mask \<open>1 << 4 = 16\<close>): a pad that holds the button
  of sample 0 and the direction of sample 7, and a SNES pad (its line reads
  set at sample 16) that holds the button of sample 8.
\<close>

definition hw_right_a :: gpio_hw where
  "hw_right_a = hw_of_samples (\<lambda>k. if k = 0 \<or> k = 7 then 16 else 0)"

definition hw_snes_a :: gpio_hw where
  "hw_snes_a = hw_of_samples (\<lambda>k. if k = 8 \<or> k = 16 then 16 else 0)"



text \<open>
  The signature frame with one tested bit changed: the line of \<open>gpio[2]\<close> also
  reads set at sample 16.
\<close>

definition hw_fourscore_deviating :: gpio_hw where
  "hw_fourscore_deviating =
     hw_of_samples (\<lambda>k. if k = 16 then 16 else if k = 18 then 128 else if k = 19 then 16 else 0)"

text \<open>
  The pad configuration that \<open>snescon_init\<close> builds for
  \<open>gpio=2,3,4,7,9,10 fourscore=1\<close> (lemma \<open>snescon_init_6pin\<close>), and a frame that
  carries the signature on its last two lines: \<open>gpio[5]\<close>, the line without a
  pull-up (\<open>1 << 10\<close>), reads set at sample 18 and \<open>gpio[4]\<close>, the third data line
  (\<open>1 << 9\<close>), reads set at sample 19.
\<close>

definition cfg_6pin :: pads_config where
  "cfg_6pin =
     \<lparr>gpio = (\<lambda>i. 0)(0 := 4, 1 := 8, 2 := 16, 3 := 128, 4 := 512, 5 := 1024),
      pad = (\<lambda>i. NULL)(0 := Dev 0, 1 := Dev 1, 2 := Dev 2, 3 := Dev 3),
      n_pads = 4, n_pad_gpios = 4, player_mode = 0, fourscore_enabled = True\<rparr>"

definition hw_signature_last_lines :: gpio_hw where
  "hw_signature_last_lines =
     hw_of_samples (\<lambda>k. if k = 18 then 1024 else if k = 19 then 512 else 0)"

section \<open>Properties\<close>

subsection \<open>Auxiliary facts\<close>

lemma concat_replicate_Suc_end: "concat (replicate (Suc n) xs) = concat (replicate n xs) @ xs"
  by (induction n) auto

lemma update_at_prefix_end:
  "length xs = n \<Longrightarrow> n < length data \<Longrightarrow> (xs @ drop n data)[n := v] = (xs @ [v]) @ drop (Suc n) data"
  by (simp add: list_update_append Cons_nth_drop_Suc [symmetric] del: append_assoc)

lemma pads_read_loop:
  "n \<le> length data \<Longrightarrow>
   fold (pads_read_step clk) [0..<n] (data, hw) =
     (map (\<lambda>i. NOT (lev hw (nreads hw + i))) [0..<n] @ drop n data,
      hw\<lparr>nreads := nreads hw + n,
         ops := ops hw @ concat (replicate n
                  [UDELAY DELAY, GPIO_CLR clk, GPIO_LEV, UDELAY DELAY, GPIO_SET clk])\<rparr>)"
proof (induction n)
  case 0
  then show ?case by simp
next
  case (Suc n)
  then have le: "n \<le> length data" and lt: "n < length data" by simp_all
  have len: "length (map (\<lambda>i. NOT (lev hw (nreads hw + i))) [0..<n]) = n" by simp
  show ?case
    unfolding upt_Suc_append [OF le0] fold_append o_apply Suc.IH [OF le] concat_replicate_Suc_end
    by (simp add: pads_read_step_def Let_def udelay_def gpio_clear_def gpio_set_def
        gpio_read_all_def update_at_prefix_end [OF len lt] del: replicate_Suc)
qed


lemma upt_0_8: "[0..<8] = [0, 1, 2, 3, 4, 5, 6, Suc 6]"
  by (simp add: upt_rec)

lemma upt_4_8: "[4..<8] = [4, 5, 6, 7]"
  by (simp add: upt_rec)

lemma pad_report_nes_unfold:
  "pad_report_nes dev g data =
     [Key dev BTN_A (g AND data ! 0), Key dev BTN_B (g AND data ! 1),
      Key dev BTN_SELECT (g AND data ! 2), Key dev BTN_START (g AND data ! 3),
      Key dev BTN_X 0, Key dev BTN_Y 0, Key dev BTN_TL 0, Key dev BTN_TR 0,
      Abs dev ABS_X (lnot (g AND data ! 6) - lnot (g AND data ! 7)),
      Abs dev ABS_Y (lnot (g AND data ! 4) - lnot (g AND data ! 5)),
      Sync dev]"
  by (simp add: pad_report_nes_def upt_rec nes_btn_label_def btn_index_def)

lemma pad_report_snes_unfold:
  "pad_report_snes dev g data =
     [Key dev BTN_B (g AND data ! 0), Key dev BTN_Y (g AND data ! 1),
      Key dev BTN_SELECT (g AND data ! 2), Key dev BTN_START (g AND data ! 3),
      Key dev BTN_A (g AND data ! 8), Key dev BTN_X (g AND data ! 9),
      Key dev BTN_TL (g AND data ! 10), Key dev BTN_TR (g AND data ! 11),
      Abs dev ABS_X (lnot (g AND data ! 6) - lnot (g AND data ! 7)),
      Abs dev ABS_Y (lnot (g AND data ! 4) - lnot (g AND data ! 5)),
      Sync dev]"
  by (simp add: pad_report_snes_def upt_rec snes_btn_label_def btn_index_def)

lemma pad_clear_report_unfold:
  "pad_clear_report dev =
     [Key dev BTN_B 0, Key dev BTN_Y 0, Key dev BTN_SELECT 0, Key dev BTN_START 0,
      Key dev BTN_A 0, Key dev BTN_X 0, Key dev BTN_TL 0, Key dev BTN_TR 0,
      Abs dev ABS_X 0, Abs dev ABS_Y 0, Sync dev]"
  by (simp add: pad_clear_report_def upt_rec snes_btn_label_def)

lemma length_gamepad_report: "length (gamepad_report cfg data i) = 11"
  by (simp add: gamepad_report_def Let_def pad_report_nes_unfold pad_report_snes_unfold)

lemma update_gamepads_concat:
  "\<forall>i \<in> set js. i < 5 \<Longrightarrow>
   update_gamepads cfg data js = Inr (concat (map (gamepad_report cfg data) js))"
  by (induction js) (simp_all add: NUMBER_OF_INPUT_DEVICES_def MAX_NUMBER_OF_GPIOS_def)

lemma pads_clear_from_concat:
  "\<forall>i \<in> set js. int i < uint (n_pads cfg) \<and> uint (n_pads cfg) - int i \<le> 5 \<Longrightarrow>
   pads_clear_from cfg js =
     Inr (concat (map (\<lambda>i. pad_clear_report (pad cfg (nat (uint (n_pads cfg) - 1 - int i)))) js))"
  by (induction js) (simp_all add: NUMBER_OF_INPUT_DEVICES_def Let_def)

lemma block_of_concat:
  "\<forall>x \<in> set xs. length (f x) = k \<Longrightarrow> i < length xs \<Longrightarrow>
   take k (drop (k * i) (concat (map f xs) @ rest)) = f (xs ! i)"
proof (induction xs arbitrary: i)
  case Nil
  then show ?case by simp
next
  case (Cons x xs)
  show ?case
  proof (cases i)
    case 0
    with Cons.prems show ?thesis by simp
  next
    case (Suc j)
    with Cons.prems have j: "j < length xs" and len: "length (f x) = k" by simp_all
    have "drop (k * Suc j) (concat (map f (x # xs)) @ rest) = drop (k * j) (concat (map f xs) @ rest)"
      using len by (simp add: drop_append add.commute)
    with Cons.IH [OF _ j] Cons.prems(1) Suc show ?thesis by simp
  qed
qed

lemma clear_indices_rev:
  "n \<le> m \<Longrightarrow> map (\<lambda>i. nat (int m - 1 - int i)) [0..<m - n] = rev [n..<m]"
proof (induction m)
  case 0
  then show ?case by simp
next
  case (Suc m)
  show ?case
  proof (cases "n = Suc m")
    case True
    then show ?thesis by simp
  next
    case False
    with Suc.prems have le: "n \<le> m" by simp
    then have d: "Suc m - n = Suc (m - n)" by simp
    have "map (\<lambda>i. nat (int (Suc m) - 1 - int i)) [0..<Suc (m - n)]
          = m # map (\<lambda>i. nat (int m - 1 - int i)) [0..<m - n]"
      unfolding upt_conv_Cons [OF zero_less_Suc] map_Suc_upt [symmetric]
      by (simp add: nat_diff_distrib')
    with Suc.IH [OF le] le show ?thesis by (simp add: d)
  qed
qed

lemma unat_le_mono8: "(a::8 word) \<le> b \<Longrightarrow> unat a \<le> unat b"
  by (simp add: word_le_nat_alt)

lemma unat_le_5: "(b::8 word) \<le> 5 \<Longrightarrow> unat b \<le> 5"
  by (simp add: word_le_nat_alt)

lemma unat_sub8: "(a::8 word) \<le> b \<Longrightarrow> unat (b - a) = unat b - unat a"
  by (simp add: unat_sub)

lemma uint_le_5: "(b::8 word) \<le> 5 \<Longrightarrow> uint b \<le> 5"
  by (simp add: word_le_def)

lemma int_less_uint: "i < unat (M::8 word) - n \<Longrightarrow> int i < uint M"
proof -
  assume "i < unat M - n"
  then have "i < unat M" by arith
  then have "int i < int (unat M)" by (simp only: of_nat_less_iff)
  then show ?thesis by (simp only: uint_nat)
qed

lemma pads_clear_trailing:
  assumes "n_pad_gpios cfg \<le> n_pads cfg" and "n_pads cfg \<le> 5"
  shows "pads_clear cfg (n_pads cfg - n_pad_gpios cfg) =
           Inr (concat (map (\<lambda>k. pad_clear_report (pad cfg k))
                  (rev [unat (n_pad_gpios cfg)..<unat (n_pads cfg)])))"
proof -
  note le = unat_le_mono8 [OF assms(1)]
  note sub = unat_sub8 [OF assms(1)]
  note le5u = uint_le_5 [OF assms(2)]
  have u: "uint (n_pads cfg) = int (unat (n_pads cfg))"
    by (rule uint_nat)
  have inrange: "\<forall>i \<in> set [0..<unat (n_pads cfg) - unat (n_pad_gpios cfg)].
      int i < uint (n_pads cfg) \<and> uint (n_pads cfg) - int i \<le> 5"
  proof (intro ballI conjI)
    fix i
    assume "i \<in> set [0..<unat (n_pads cfg) - unat (n_pad_gpios cfg)]"
    then have "i < unat (n_pads cfg) - unat (n_pad_gpios cfg)"
      by (simp only: set_upt atLeastLessThan_iff)
    then show "int i < uint (n_pads cfg)" by (rule int_less_uint)
    show "uint (n_pads cfg) - int i \<le> 5" using le5u by arith
  qed
  have "map (\<lambda>i. pad_clear_report (pad cfg (nat (uint (n_pads cfg) - 1 - int i))))
            [0..<unat (n_pads cfg) - unat (n_pad_gpios cfg)]
        = map (\<lambda>k. pad_clear_report (pad cfg k))
            (map (\<lambda>i. nat (int (unat (n_pads cfg)) - 1 - int i))
               [0..<unat (n_pads cfg) - unat (n_pad_gpios cfg)])"
    unfolding u map_map o_def ..
  also have "\<dots> = map (\<lambda>k. pad_clear_report (pad cfg k))
                       (rev [unat (n_pad_gpios cfg)..<unat (n_pads cfg)])"
    by (simp only: clear_indices_rev [OF le])
  finally have m: "map (\<lambda>i. pad_clear_report (pad cfg (nat (uint (n_pads cfg) - 1 - int i))))
            [0..<unat (n_pads cfg) - unat (n_pad_gpios cfg)]
        = map (\<lambda>k. pad_clear_report (pad cfg k))
                       (rev [unat (n_pad_gpios cfg)..<unat (n_pads cfg)])" .
  show ?thesis
    unfolding pads_clear_def sub pads_clear_from_concat [OF inrange] m ..
qed

lemma update_plain_result:
  assumes "n_pad_gpios cfg \<le> n_pads cfg" and "n_pads cfg \<le> 5"
  shows "update_plain cfg data =
     Inr (if player_mode cfg > n_pad_gpios cfg then cfg\<lparr>player_mode := n_pad_gpios cfg\<rparr> else cfg,
          concat (map (gamepad_report cfg data) [0..<unat (n_pad_gpios cfg)])
          @ (if player_mode cfg > n_pad_gpios cfg
             then concat (map (\<lambda>k. pad_clear_report (pad cfg k))
                    (rev [unat (n_pad_gpios cfg)..<unat (n_pads cfg)]))
             else []))"
proof -
  have "n_pad_gpios cfg \<le> 5"
    using assms by (rule order_trans)
  then have "unat (n_pad_gpios cfg) \<le> 5"
    by (rule unat_le_5)
  then have g: "\<forall>i \<in> set [0..<unat (n_pad_gpios cfg)]. i < 5" by auto
  let ?cfg' = "cfg\<lparr>player_mode := n_pad_gpios cfg\<rparr>"
  have c: "pads_clear ?cfg' (n_pads ?cfg' - n_pad_gpios ?cfg') =
           Inr (concat (map (\<lambda>k. pad_clear_report (pad cfg k))
                  (rev [unat (n_pad_gpios cfg)..<unat (n_pads cfg)])))"
    using pads_clear_trailing [of ?cfg'] assms by simp
  show ?thesis
    unfolding update_plain_def update_gamepads_concat [OF g] Let_def c by simp
qed

lemma pads_read_frame:
  "pads_read cfg (replicate BUFFER_SIZE 0) hw =
     (frame hw,
      hw\<lparr>nreads := nreads hw + BITS_LENGTH,
         ops := ops hw @ [GPIO_SET (gpio cfg 0 OR gpio cfg 1), UDELAY (DELAY * 2), GPIO_CLR (gpio cfg 1)]
                @ concat (replicate BITS_LENGTH
                  [UDELAY DELAY, GPIO_CLR (gpio cfg 0), GPIO_LEV, UDELAY DELAY, GPIO_SET (gpio cfg 0)])\<rparr>)"
proof -
  have n: "BITS_LENGTH \<le> length (replicate BUFFER_SIZE (0 :: 32 word))"
    by (simp add: BITS_LENGTH_def BUFFER_SIZE_def)
  show ?thesis
    unfolding pads_read_def Let_def pads_read_loop [OF n] frame_def
    by (simp add: BITS_LENGTH_def BUFFER_SIZE_def udelay_def gpio_clear_def gpio_set_def
        del: replicate_Suc)
qed

lemma frame_nth: "k < BITS_LENGTH \<Longrightarrow> frame hw ! k = NOT (lev hw (nreads hw + k))"
  by (simp add: frame_def)

lemma frame_samples: "k < 24 \<Longrightarrow> frame (hw_of_samples d) ! k = d k"
  by (simp add: frame_nth BITS_LENGTH_def hw_of_samples_def)

lemma pads_update_frame:
  "pads_update cfg hw =
     (case (if fourscore_enabled cfg \<and> fourscore_connected cfg (frame hw)
            then update_fourscore cfg (frame hw)
            else update_plain cfg (frame hw)) of
        Inl e \<Rightarrow> Inl e
      | Inr (cfg', evs) \<Rightarrow> Inr (cfg', snd (pads_read cfg (replicate BUFFER_SIZE 0) hw), evs))"
  by (simp add: pads_update_def pads_read_frame split: sum.splits prod.splits)

lemma upt_0_1: "[0..<1] = [0]" by simp
lemma upt_0_2: "[0..<2] = [0, 1]" by (simp add: upt_rec)
lemma upt_0_3: "[0..<3] = [0, 1, 2]" by (simp add: upt_rec)
lemma upt_0_4: "[0..<4] = [0, 1, 2, 3]" by (simp add: upt_rec)
lemma upt_0_5: "[0..<5] = [0, 1, 2, 3, 4]" by (simp add: upt_rec)

lemmas init_eval = snescon_init_def snescon_config_load_def env_ok_def
      MIN_NUMBER_OF_GPIOS_def MAX_NUMBER_OF_GPIOS_def gpio_list_valid_def gpio_valid_def
      all_valid_gpio_def gpio_get_bit_def pads_setup_def NUMBER_OF_INPUT_DEVICES_def
      upt_0_1 upt_0_2 upt_0_3 upt_0_4 upt_0_5 Let_def

lemma snescon_init_3pin:
  "snescon_init (snescon_config_load [2, 3, 4] False) env_ok =
     Inr (0, (snescon_config_load [2, 3, 4] False)\<lparr>pads_cfg := cfg_3pin\<rparr>)"
  by (simp add: init_eval cfg_3pin_def)

lemma snescon_init_4pin:
  "snescon_init (snescon_config_load [2, 3, 4, 7] True) env_ok =
     Inr (0, (snescon_config_load [2, 3, 4, 7] True)\<lparr>pads_cfg := cfg_4pin\<rparr>)"
  by (simp add: init_eval cfg_4pin_def)

lemma snescon_init_5pin:
  "snescon_init (snescon_config_load [2, 3, 4, 7, 9] True) env_ok =
     Inr (0, (snescon_config_load [2, 3, 4, 7, 9] True)\<lparr>pads_cfg := cfg_5pin\<rparr>)"
  by (simp add: init_eval cfg_5pin_def)


lemma pads_update_plain:
  assumes "\<not> (fourscore_enabled cfg \<and> fourscore_connected cfg (frame hw))"
      and "n_pad_gpios cfg \<le> n_pads cfg" and "n_pads cfg \<le> 5"
  shows "pads_update cfg hw =
     Inr (if player_mode cfg > n_pad_gpios cfg then cfg\<lparr>player_mode := n_pad_gpios cfg\<rparr> else cfg,
          snd (pads_read cfg (replicate BUFFER_SIZE 0) hw),
          concat (map (gamepad_report cfg (frame hw)) [0..<unat (n_pad_gpios cfg)])
          @ (if player_mode cfg > n_pad_gpios cfg
             then concat (map (\<lambda>k. pad_clear_report (pad cfg k))
                    (rev [unat (n_pad_gpios cfg)..<unat (n_pads cfg)]))
             else []))"
  unfolding pads_update_frame if_not_P [OF assms(1)] update_plain_result [OF assms(2,3)]
  by simp

lemma plain_slot_block:
  assumes "\<not> (fourscore_enabled cfg \<and> fourscore_connected cfg (frame hw))"
      and "n_pad_gpios cfg \<le> n_pads cfg" and "n_pads cfg \<le> 5"
      and "i < unat (n_pad_gpios cfg)"
  shows "\<exists>cfg' hw' evs. pads_update cfg hw = Inr (cfg', hw', evs) \<and>
           take 11 (drop (11 * i) evs) = gamepad_report cfg (frame hw) i"
proof -
  let ?n = "unat (n_pad_gpios cfg)"
  have len: "\<forall>x \<in> set [0..<?n]. length (gamepad_report cfg (frame hw) x) = 11"
    by (simp add: length_gamepad_report)
  have i: "i < length [0..<?n]" using assms(4) by simp
  have "take 11 (drop (11 * i) (concat (map (gamepad_report cfg (frame hw)) [0..<?n]) @ rest))
        = gamepad_report cfg (frame hw) i" for rest
    using block_of_concat [OF len i, of rest] assms(4) by simp
  then show ?thesis
    unfolding pads_update_plain [OF assms(1,2,3)] by blast
qed

lemmas plain_eval = frame_samples gamepad_report_def pad_report_nes_unfold pad_report_snes_unfold
  pad_clear_report_unfold lnot_def dispatched_def config_after_def fourscore_connected_def Let_def

lemma cfg_3pin_plain: "\<not> (fourscore_enabled cfg_3pin \<and> fourscore_connected cfg_3pin (frame hw))"
  by (simp add: cfg_3pin_def)

lemma cfg_3pin_range: "n_pad_gpios cfg_3pin \<le> n_pads cfg_3pin" "n_pads cfg_3pin \<le> 5"
  "0 < unat (n_pad_gpios cfg_3pin)"
  by (simp_all add: cfg_3pin_def)

lemma pads_update_3pin_right_a:
  "dispatched (pads_update cfg_3pin hw_right_a) =
     Some [Key (Dev 0) BTN_A 16, Key (Dev 0) BTN_B 0, Key (Dev 0) BTN_SELECT 0,
           Key (Dev 0) BTN_START 0, Key (Dev 0) BTN_X 0, Key (Dev 0) BTN_Y 0,
           Key (Dev 0) BTN_TL 0, Key (Dev 0) BTN_TR 0,
           Abs (Dev 0) ABS_X 1, Abs (Dev 0) ABS_Y 0, Sync (Dev 0)]"
  unfolding pads_update_plain [OF cfg_3pin_plain cfg_3pin_range(1,2)]
  by (simp add: plain_eval cfg_3pin_def hw_right_a_def)

lemma gamepad_report_axes:
  "gamepad_report cfg data i ! 8 =
     Abs (pad cfg i) ABS_X (lnot (gpio cfg (i + 2) AND data ! 6) - lnot (gpio cfg (i + 2) AND data ! 7))"
  "gamepad_report cfg data i ! 9 =
     Abs (pad cfg i) ABS_Y (lnot (gpio cfg (i + 2) AND data ! 4) - lnot (gpio cfg (i + 2) AND data ! 5))"
  by (simp_all add: gamepad_report_def Let_def pad_report_nes_unfold pad_report_snes_unfold)

lemma plain_slot_axes:
  assumes "\<not> (fourscore_enabled cfg \<and> fourscore_connected cfg (frame hw))"
      and "n_pad_gpios cfg \<le> n_pads cfg" and "n_pads cfg \<le> 5"
      and "i < unat (n_pad_gpios cfg)"
  shows "\<exists>cfg' hw' evs. pads_update cfg hw = Inr (cfg', hw', evs) \<and>
           evs ! (11 * i + 8) =
             Abs (pad cfg i) ABS_X (lnot (gpio cfg (i + 2) AND frame hw ! 6)
                                     - lnot (gpio cfg (i + 2) AND frame hw ! 7)) \<and>
           evs ! (11 * i + 9) =
             Abs (pad cfg i) ABS_Y (lnot (gpio cfg (i + 2) AND frame hw ! 4)
                                     - lnot (gpio cfg (i + 2) AND frame hw ! 5))"
proof -
  from plain_slot_block [OF assms] obtain cfg' hw' evs where
    r: "pads_update cfg hw = Inr (cfg', hw', evs)" and
    b: "take 11 (drop (11 * i) evs) = gamepad_report cfg (frame hw) i"
    by blast
  have "length (take 11 (drop (11 * i) evs)) = 11"
    unfolding b by (rule length_gamepad_report)
  then have "11 * i \<le> length evs" by simp
  then have "evs ! (11 * i + 8) = take 11 (drop (11 * i) evs) ! 8"
       "evs ! (11 * i + 9) = take 11 (drop (11 * i) evs) ! 9"
    by simp_all
  then show ?thesis
    unfolding b gamepad_report_axes using r by blast
qed

lemma lnot_diff_cases:
  "lnot a - lnot b = (if a = 0 \<and> b \<noteq> 0 then 1 else if a \<noteq> 0 \<and> b = 0 then - 1 else 0)"
  by (simp add: lnot_def)



lemma upt_16_24: "[16..<24] = [16, 17, 18, 19, 20, 21, 22, 23]"
  by (simp add: upt_rec)

lemma fourscore_connected_signature:
  "fourscore_connected cfg data = fourscore_signature (gpio cfg 3) (gpio cfg 2) data"
  unfolding fourscore_connected_def fourscore_signature_def upt_16_24
  by auto

lemma fourscore_signature_deviation:
  assumes "fourscore_signature line18 line19 data"
      and "k \<in> {16..<24}"
      and "((line18 AND data' ! k) \<noteq> 0) \<noteq> ((line18 AND data ! k) \<noteq> 0)
           \<or> ((line19 AND data' ! k) \<noteq> 0) \<noteq> ((line19 AND data ! k) \<noteq> 0)"
  shows "\<not> fourscore_signature line18 line19 data'"
proof
  assume d: "fourscore_signature line18 line19 data'"
  have k: "k \<in> set [16..<24]" using assms(2) unfolding atLeastLessThan_upt .
  from assms(1) k have "((line18 AND data ! k) \<noteq> 0) = (k = 18) \<and> ((line19 AND data ! k) \<noteq> 0) = (k = 19)"
    unfolding fourscore_signature_def list_all_iff by blast
  moreover from d k have "((line18 AND data' ! k) \<noteq> 0) = (k = 18) \<and> ((line19 AND data' ! k) \<noteq> 0) = (k = 19)"
    unfolding fourscore_signature_def list_all_iff by blast
  ultimately show False using assms(3) by blast
qed

lemma fourscore_report_12_unfold:
  "fourscore_report_12 cfg data i =
     [Key (pad cfg i) BTN_A (gpio cfg (i + 2) AND data ! 0),
      Key (pad cfg i) BTN_B (gpio cfg (i + 2) AND data ! 1),
      Key (pad cfg i) BTN_SELECT (gpio cfg (i + 2) AND data ! 2),
      Key (pad cfg i) BTN_START (gpio cfg (i + 2) AND data ! 3),
      Abs (pad cfg i) ABS_X (lnot (gpio cfg (i + 2) AND data ! 6) - lnot (gpio cfg (i + 2) AND data ! 7)),
      Abs (pad cfg i) ABS_Y (lnot (gpio cfg (i + 2) AND data ! 4) - lnot (gpio cfg (i + 2) AND data ! 5)),
      Sync (pad cfg i)]"
  by (simp add: fourscore_report_12_def Let_def upt_0_4 nes_btn_label_def btn_index_def)

lemma fourscore_report_34_unfold:
  "fourscore_report_34 cfg data i =
     [Key (pad cfg i) BTN_A (gpio cfg i AND data ! 8),
      Key (pad cfg i) BTN_B (gpio cfg i AND data ! 9),
      Key (pad cfg i) BTN_SELECT (gpio cfg i AND data ! 10),
      Key (pad cfg i) BTN_START (gpio cfg i AND data ! 11),
      Abs (pad cfg i) ABS_X (lnot (gpio cfg i AND data ! 14) - lnot (gpio cfg i AND data ! 15)),
      Abs (pad cfg i) ABS_Y (lnot (gpio cfg i AND data ! 12) - lnot (gpio cfg i AND data ! 13)),
      Sync (pad cfg i)]"
  by (simp add: fourscore_report_34_def Let_def upt_0_4 nes_btn_label_def btn_index_def)

lemma upt_2_4: "[2..<4] = [2, 3]"
  by (simp add: upt_rec)

lemma pads_clear_one:
  "pads_clear cfg 1 =
     (if 1 \<le> uint (n_pads cfg) \<and> uint (n_pads cfg) \<le> 5
      then Inr (pad_clear_report (pad cfg (nat (uint (n_pads cfg) - 1))))
      else Inl OutOfBounds)"
  by (simp add: pads_clear_def NUMBER_OF_INPUT_DEVICES_def Let_def)

lemma update_fourscore_result:
  "update_fourscore cfg data =
     (if player_mode cfg > 4 then
        (if 1 \<le> uint (n_pads cfg) \<and> uint (n_pads cfg) \<le> 5
         then Inr (cfg\<lparr>player_mode := 4\<rparr>,
                   fourscore_report_12 cfg data 0 @ fourscore_report_12 cfg data 1
                   @ fourscore_report_34 cfg data 2 @ fourscore_report_34 cfg data 3
                   @ pad_clear_report (pad cfg (nat (uint (n_pads cfg) - 1))))
         else Inl OutOfBounds)
      else Inr (cfg\<lparr>player_mode := 4\<rparr>,
                fourscore_report_12 cfg data 0 @ fourscore_report_12 cfg data 1
                @ fourscore_report_34 cfg data 2 @ fourscore_report_34 cfg data 3))"
proof -
  have e: "player_mode cfg = 4 \<Longrightarrow> cfg\<lparr>player_mode := 4\<rparr> = cfg"
    by (cases cfg) simp
  show ?thesis
    by (auto simp: update_fourscore_def Let_def pads_clear_one upt_0_2 upt_2_4 e)
qed

lemma cfg_4pin_fourscore:
  "fourscore_enabled cfg_4pin \<and> fourscore_connected cfg_4pin (frame hw_fourscore)"
  by (simp add: cfg_4pin_def hw_fourscore_def frame_samples fourscore_connected_def)

lemma cfg_4pin_range:
  "n_pad_gpios cfg_4pin \<le> n_pads cfg_4pin" "1 \<le> n_pads cfg_4pin" "n_pads cfg_4pin \<le> 5"
  by (simp_all add: cfg_4pin_def)

lemma cfg_4pin_mode4_plain:
  "\<not> (fourscore_enabled (cfg_4pin\<lparr>player_mode := 4\<rparr>)
       \<and> fourscore_connected (cfg_4pin\<lparr>player_mode := 4\<rparr>) (frame hw_idle))"
  by (simp add: cfg_4pin_def hw_idle_def frame_samples fourscore_connected_def)

lemma fourscore_reports_4pin:
  "fourscore_report_12 cfg_4pin (frame hw_fourscore) 0
   @ fourscore_report_12 cfg_4pin (frame hw_fourscore) 1
   @ fourscore_report_34 cfg_4pin (frame hw_fourscore) 2
   @ fourscore_report_34 cfg_4pin (frame hw_fourscore) 3 =
     [Key (Dev 0) BTN_A 0, Key (Dev 0) BTN_B 0, Key (Dev 0) BTN_SELECT 0, Key (Dev 0) BTN_START 0,
      Abs (Dev 0) ABS_X 0, Abs (Dev 0) ABS_Y 0, Sync (Dev 0),
      Key (Dev 1) BTN_A 0, Key (Dev 1) BTN_B 0, Key (Dev 1) BTN_SELECT 0, Key (Dev 1) BTN_START 0,
      Abs (Dev 1) ABS_X 0, Abs (Dev 1) ABS_Y 0, Sync (Dev 1),
      Key NULL BTN_A 0, Key NULL BTN_B 0, Key NULL BTN_SELECT 0, Key NULL BTN_START 0,
      Abs NULL ABS_X 0, Abs NULL ABS_Y 0, Sync NULL,
      Key NULL BTN_A 0, Key NULL BTN_B 0, Key NULL BTN_SELECT 0, Key NULL BTN_START 0,
      Abs NULL ABS_X 0, Abs NULL ABS_Y 0, Sync NULL]"
  by (simp add: fourscore_report_12_unfold fourscore_report_34_unfold cfg_4pin_def
      hw_fourscore_def frame_samples lnot_def)

lemma pads_setup_from_failed:
  "status \<noteq> 0 \<Longrightarrow> pads_setup_from env js (cfg, status) = Inr (cfg, status)"
  by (cases js) simp_all

lemma pads_setup_from_ok:
  "pads_setup_from env js (cfg, 0) = Inr (cfg', 0) \<Longrightarrow>
     (\<forall>i \<in> set js. pad cfg' i \<noteq> NULL) \<and> (\<forall>i. i \<notin> set js \<longrightarrow> pad cfg' i = pad cfg i) \<and>
     cfg' = cfg\<lparr>pad := pad cfg'\<rparr>"
proof (induction js arbitrary: cfg)
  case Nil
  then show ?case by simp
next
  case (Cons i js)
  let ?cfg1 = "cfg\<lparr>pad := (pad cfg)(i := allocate_device env i)\<rparr>"
  from Cons.prems have ok: "allocate_device env i \<noteq> NULL" "kzalloc_ok env i"
      "register_device env i = 0" "i < NUMBER_OF_INPUT_DEVICES"
    by (auto simp: Let_def ENOMEM_def pads_setup_from_failed split: if_splits)
  with Cons.prems have "pads_setup_from env js (?cfg1, 0) = Inr (cfg', 0)"
    by (simp add: Let_def)
  from Cons.IH [OF this]
  have ih: "\<forall>i \<in> set js. pad cfg' i \<noteq> NULL"
    "\<forall>k. k \<notin> set js \<longrightarrow> pad cfg' k = pad ?cfg1 k"
    "cfg' = ?cfg1\<lparr>pad := pad cfg'\<rparr>"
    by blast+
  have "pad cfg' i \<noteq> NULL"
  proof (cases "i \<in> set js")
    case True
    with ih(1) show ?thesis by blast
  next
    case False
    with ih(2) ok(1) show ?thesis by simp
  qed
  moreover have "\<forall>k. k \<notin> set (i # js) \<longrightarrow> pad cfg' k = pad cfg k"
    using ih(2) by simp
  moreover have "cfg' = cfg\<lparr>pad := pad cfg'\<rparr>"
    using ih(3) by simp
  ultimately show ?case using ih(1) by simp
qed

lemma fold_gpio_update:
  "fold (\<lambda>i c. c\<lparr>gpio := (gpio c)(i := f i)\<rparr>) js cfg =
     cfg\<lparr>gpio := fold (\<lambda>i g. g(i := f i)) js (gpio cfg)\<rparr>"
  by (induction js arbitrary: cfg) simp_all

lemma snescon_init_fourscore_pads:
  assumes "snescon_init (snescon_config_load ids True) env = Inr (0, sc)"
      and "length ids = 4 \<or> length ids = 5"
  shows "fourscore_enabled (pads_cfg sc) \<and> player_mode (pads_cfg sc) = 0 \<and>
         unat (n_pads (pads_cfg sc)) = length ids - 2 \<and>
         unat (n_pad_gpios (pads_cfg sc)) = length ids - 2 \<and>
         (\<forall>i < length ids - 2. pad (pads_cfg sc) i \<noteq> NULL) \<and>
         (\<forall>i \<ge> length ids - 2. pad (pads_cfg sc) i = NULL)"
proof -
  let ?sc0 = "snescon_config_load ids True"
  let ?n = "ucast (gpio_id_cnt ?sc0 - 2) :: 8 word"
  let ?cfg3 = "(pads_cfg ?sc0)\<lparr>n_pads := ?n, n_pad_gpios := ?n,
      gpio := fold (\<lambda>i g. g(i := gpio_get_bit (ucast (gpio_id ?sc0 i))))
                [0..<unat (gpio_id_cnt ?sc0)] (gpio (pads_cfg ?sc0))\<rparr>"
  have cnt: "gpio_id_cnt ?sc0 = 4 \<or> gpio_id_cnt ?sc0 = 5"
    using assms(2) by (auto simp: snescon_config_load_def)
  have n: "unat ?n = length ids - 2"
    using assms(2) by (auto simp: snescon_config_load_def)
  from assms(1) cnt obtain cfg4 where
    su: "pads_setup ?cfg3 env = Inr (cfg4, 0)" and sc: "sc = ?sc0\<lparr>pads_cfg := cfg4\<rparr>"
    by (auto simp: snescon_init_def Let_def fold_gpio_update EINVAL_def EBUSY_def
        MIN_NUMBER_OF_GPIOS_def MAX_NUMBER_OF_GPIOS_def
        split: if_splits sum.splits prod.splits)
  from su have "pads_setup_from env [0..<length ids - 2] (?cfg3, 0) = Inr (cfg4, 0)"
    unfolding pads_setup_def using n by simp
  from pads_setup_from_ok [OF this]
  have p: "\<forall>i \<in> set [0..<length ids - 2]. pad cfg4 i \<noteq> NULL"
    "\<forall>i. i \<notin> set [0..<length ids - 2] \<longrightarrow> pad cfg4 i = pad ?cfg3 i"
    "cfg4 = ?cfg3\<lparr>pad := pad cfg4\<rparr>"
    by blast+
  have f: "fourscore_enabled cfg4" "player_mode cfg4 = 0" "n_pads cfg4 = ?n" "n_pad_gpios cfg4 = ?n"
    by (subst p(3), simp add: snescon_config_load_def)+
  have "\<forall>i \<ge> length ids - 2. pad cfg4 i = NULL"
    using p(2) by (simp add: snescon_config_load_def)
  with p(1) f n show ?thesis
    unfolding sc by simp
qed


lemma fourscore_take_28:
  assumes "fourscore_enabled cfg" and "fourscore_connected cfg (frame hw)"
      and "player_mode cfg \<le> 4 \<or> (1 \<le> n_pads cfg \<and> n_pads cfg \<le> 5)"
  shows "\<exists>cfg' hw' evs. pads_update cfg hw = Inr (cfg', hw', evs) \<and>
           take 28 evs =
             fourscore_report_12 cfg (frame hw) 0 @ fourscore_report_12 cfg (frame hw) 1
             @ fourscore_report_34 cfg (frame hw) 2 @ fourscore_report_34 cfg (frame hw) 3"
proof -
  have c: "fourscore_enabled cfg \<and> fourscore_connected cfg (frame hw)"
    using assms(1,2) by simp
  have len: "length (fourscore_report_12 cfg (frame hw) 0 @ fourscore_report_12 cfg (frame hw) 1
             @ fourscore_report_34 cfg (frame hw) 2 @ fourscore_report_34 cfg (frame hw) 3) = 28"
    by (simp add: fourscore_report_12_unfold fourscore_report_34_unfold)
  have t: "take 28 (a @ b @ c @ d @ e) = a @ b @ c @ d" if "length (a @ b @ c @ d) = 28"
    for a b c d e :: "event list"
    using that by (metis append.assoc append_eq_conv_conj)
  let ?four = "fourscore_report_12 cfg (frame hw) 0 @ fourscore_report_12 cfg (frame hw) 1
             @ fourscore_report_34 cfg (frame hw) 2 @ fourscore_report_34 cfg (frame hw) 3"
  show ?thesis
  proof (cases "player_mode cfg > 4")
    case True
    then have "\<not> player_mode cfg \<le> 4" by simp
    with assms(3) have "1 \<le> n_pads cfg" "n_pads cfg \<le> 5" by blast+
    then have "1 \<le> uint (n_pads cfg) \<and> uint (n_pads cfg) \<le> 5"
      by (simp add: word_le_def)
    with True have "pads_update cfg hw =
        Inr (cfg\<lparr>player_mode := 4\<rparr>, snd (pads_read cfg (replicate BUFFER_SIZE 0) hw),
             fourscore_report_12 cfg (frame hw) 0 @ fourscore_report_12 cfg (frame hw) 1
             @ fourscore_report_34 cfg (frame hw) 2 @ fourscore_report_34 cfg (frame hw) 3
             @ pad_clear_report (pad cfg (nat (uint (n_pads cfg) - 1))))"
      unfolding pads_update_frame if_P [OF c] update_fourscore_result by simp
    with t [OF len] show ?thesis by blast
  next
    case False
    then have "pads_update cfg hw =
        Inr (cfg\<lparr>player_mode := 4\<rparr>, snd (pads_read cfg (replicate BUFFER_SIZE 0) hw), ?four)"
      unfolding pads_update_frame if_P [OF c] update_fourscore_result by simp
    moreover have "take 28 ?four = ?four" using len by simp
    ultimately show ?thesis by blast
  qed
qed

lemma fourscore_report_12_first:
  "fourscore_report_12 cfg data 0 =
     [Key (pad cfg 0) BTN_A (gpio cfg 2 AND data ! 0),
      Key (pad cfg 0) BTN_B (gpio cfg 2 AND data ! 1),
      Key (pad cfg 0) BTN_SELECT (gpio cfg 2 AND data ! 2),
      Key (pad cfg 0) BTN_START (gpio cfg 2 AND data ! 3),
      Abs (pad cfg 0) ABS_X (lnot (gpio cfg 2 AND data ! 6) - lnot (gpio cfg 2 AND data ! 7)),
      Abs (pad cfg 0) ABS_Y (lnot (gpio cfg 2 AND data ! 4) - lnot (gpio cfg 2 AND data ! 5)),
      Sync (pad cfg 0)]"
  by (simp add: fourscore_report_12_unfold numeral_2_eq_2)

lemma fourscore_report_12_second:
  "fourscore_report_12 cfg data 1 =
     [Key (pad cfg 1) BTN_A (gpio cfg 3 AND data ! 0),
      Key (pad cfg 1) BTN_B (gpio cfg 3 AND data ! 1),
      Key (pad cfg 1) BTN_SELECT (gpio cfg 3 AND data ! 2),
      Key (pad cfg 1) BTN_START (gpio cfg 3 AND data ! 3),
      Abs (pad cfg 1) ABS_X (lnot (gpio cfg 3 AND data ! 6) - lnot (gpio cfg 3 AND data ! 7)),
      Abs (pad cfg 1) ABS_Y (lnot (gpio cfg 3 AND data ! 4) - lnot (gpio cfg 3 AND data ! 5)),
      Sync (pad cfg 1)]"
  by (simp add: fourscore_report_12_unfold numeral_3_eq_3)

lemma cfg_5pin_fourscore:
  "fourscore_enabled cfg_5pin" "fourscore_connected cfg_5pin (frame hw_fourscore)"
  by (simp_all add: cfg_5pin_def hw_fourscore_def frame_samples fourscore_connected_def)

text \<open>
  The SNES test \<open>(g & data[16]) == 1\<close> fails for every mask \<open>1 << n\<close> with \<open>n > 0\<close>,
  whatever the sample is.
\<close>

lemma snes_test_needs_gpio_0:
  assumes "0 < n"
  shows "(push_bit n (1 :: 32 word) AND d) \<noteq> 1"
proof
  assume "(push_bit n (1 :: 32 word) AND d) = 1"
  then have "bit (push_bit n (1 :: 32 word) AND d) 0 = bit (1 :: 32 word) 0"
    by simp
  with assms show False
    by (simp add: bit_simps)
qed

text \<open>
  Start-up: \<open>gpio_valid\<close> accepts the 8-bit numbers 0 to 27. \<open>snescon_init\<close> returns
  \<open>-EINVAL\<close> and leaves the configuration as it was when the number of pins is
  below 3 or above 7, when the FourScore is enabled with fewer than 4 pins, or
  when the low eight bits of one of the identifiers are above 27; otherwise,
  with a kernel that grants every request, it returns 0. After a successful
  start-up there are as many pads as data lines, between one and five.
\<close>

lemma gpio_valid_scan_iff: "gpio_valid_scan g vs \<longleftrightarrow> g \<in> set vs"
  by (induction vs) auto

lemma gpio_list_valid_from_iff:
  "gpio_list_valid_from list js \<longleftrightarrow> (\<forall>i \<in> set js. gpio_valid (ucast (list i)))"
  by (induction js) auto

lemma gpio_id_cnt_cases:
  assumes "\<not> cnt < (3 :: 32 word)" and "\<not> cnt > 7"
  shows "cnt = 3 \<or> cnt = 4 \<or> cnt = 5 \<or> cnt = 6 \<or> cnt = 7"
proof -
  from assms have "3 \<le> unat cnt" "unat cnt \<le> 7"
    by (simp_all add: word_less_nat_alt not_less)
  then have "unat cnt = 3 \<or> unat cnt = 4 \<or> unat cnt = 5 \<or> unat cnt = 6 \<or> unat cnt = 7"
    by arith
  then show ?thesis
    by (simp add: word_unat_eq_iff)
qed

lemma snescon_init_range:
  assumes "snescon_init sc env = Inr (0, sc')"
  shows "n_pads (pads_cfg sc') = n_pad_gpios (pads_cfg sc') \<and>
         1 \<le> n_pads (pads_cfg sc') \<and> n_pads (pads_cfg sc') \<le> 5"
proof -
  from assms have v: "\<not> gpio_id_cnt sc < 3" "\<not> gpio_id_cnt sc > 7"
    "\<not> (fourscore_enabled (pads_cfg sc) \<and> gpio_id_cnt sc < 4)"
    by (auto simp: snescon_init_def EINVAL_def MIN_NUMBER_OF_GPIOS_def MAX_NUMBER_OF_GPIOS_def
        split: if_splits)
  let ?n = "ucast (gpio_id_cnt sc - 2) :: 8 word"
  let ?cfg3 = "(pads_cfg sc)\<lparr>n_pads := ?n, n_pad_gpios := ?n,
      gpio := fold (\<lambda>i g. g(i := gpio_get_bit (ucast (gpio_id sc i))))
                [0..<unat (gpio_id_cnt sc)] (gpio (pads_cfg sc))\<rparr>"
  from assms v obtain cfg4 where
    su: "pads_setup ?cfg3 env = Inr (cfg4, 0)" and sc: "sc' = sc\<lparr>pads_cfg := cfg4\<rparr>"
    by (auto simp: snescon_init_def Let_def fold_gpio_update EINVAL_def EBUSY_def
        MIN_NUMBER_OF_GPIOS_def MAX_NUMBER_OF_GPIOS_def
        split: if_splits sum.splits prod.splits)
  from su have c: "cfg4 = ?cfg3\<lparr>pad := pad cfg4\<rparr>"
    unfolding pads_setup_def using pads_setup_from_ok by blast
  have f: "n_pads cfg4 = ?n" "n_pad_gpios cfg4 = ?n"
    by (subst c, simp)+
  from gpio_id_cnt_cases [OF v(1,2)] have "1 \<le> ?n \<and> ?n \<le> 5"
    by auto
  with f show ?thesis unfolding sc by simp
qed


lemma gpio_valid_iff: "gpio_valid g \<longleftrightarrow> unat g \<le> 27"
proof -
  have "gpio_valid g \<longleftrightarrow> g \<in> set all_valid_gpio"
    by (simp add: gpio_valid_def gpio_valid_scan_iff)
  also have "\<dots> \<longleftrightarrow> unat g \<in> unat ` set all_valid_gpio"
    by (auto dest: word_unat_eq_iff [THEN iffD2])
  also have "unat ` set all_valid_gpio = {0..27}"
    unfolding all_valid_gpio_def by (auto simp: image_iff) arith
  finally show ?thesis by simp
qed

lemma snescon_init_rejects:
  assumes "gpio_id_cnt sc < 3 \<or> gpio_id_cnt sc > 7
           \<or> (fourscore_enabled (pads_cfg sc) \<and> gpio_id_cnt sc < 4)
           \<or> (\<exists>i < unat (gpio_id_cnt sc). 27 < unat (ucast (gpio_id sc i) :: 8 word))"
  shows "snescon_init sc env = Inr (- EINVAL, sc)"
proof (cases "gpio_id_cnt sc < 3 \<or> gpio_id_cnt sc > 7
           \<or> (fourscore_enabled (pads_cfg sc) \<and> gpio_id_cnt sc < 4)")
  case True
  then show ?thesis
    by (auto simp: snescon_init_def MIN_NUMBER_OF_GPIOS_def MAX_NUMBER_OF_GPIOS_def)
next
  case False
  then have c: "\<not> gpio_id_cnt sc < 3" "\<not> gpio_id_cnt sc > 7" by simp_all
  from gpio_id_cnt_cases [OF c]
  have u: "unat (ucast (gpio_id_cnt sc) :: 8 word) = unat (gpio_id_cnt sc)"
    by auto
  from False assms have "\<exists>i < unat (gpio_id_cnt sc). 27 < unat (ucast (gpio_id sc i) :: 8 word)"
    by blast
  then have "\<not> gpio_list_valid (gpio_id sc) (ucast (gpio_id_cnt sc))"
    unfolding gpio_list_valid_def gpio_list_valid_from_iff u gpio_valid_iff
    by (auto simp: not_le)
  with False show ?thesis
    by (simp add: snescon_init_def MIN_NUMBER_OF_GPIOS_def MAX_NUMBER_OF_GPIOS_def)
qed

lemma pads_setup_from_succeeds:
  assumes "\<forall>i \<in> set js. i < 5 \<and> allocate_device env i \<noteq> NULL \<and> kzalloc_ok env i
             \<and> register_device env i = 0"
  shows "\<exists>cfg'. pads_setup_from env js (cfg, 0) = Inr (cfg', 0)"
  using assms
  by (induction js arbitrary: cfg) (simp_all add: NUMBER_OF_INPUT_DEVICES_def Let_def)

lemma snescon_init_accepts:
  assumes "\<not> gpio_id_cnt sc < 3" and "\<not> gpio_id_cnt sc > 7"
      and "\<not> (fourscore_enabled (pads_cfg sc) \<and> gpio_id_cnt sc < 4)"
      and "\<forall>i < unat (gpio_id_cnt sc). unat (ucast (gpio_id sc i) :: 8 word) \<le> 27"
      and "ioremap_ok env"
      and "\<forall>i. allocate_device env i \<noteq> NULL \<and> kzalloc_ok env i \<and> register_device env i = 0"
  shows "\<exists>sc'. snescon_init sc env = Inr (0, sc')"
proof -
  note cs = gpio_id_cnt_cases [OF assms(1,2)]
  then have u: "unat (ucast (gpio_id_cnt sc) :: 8 word) = unat (gpio_id_cnt sc)"
    by auto
  have v: "gpio_list_valid (gpio_id sc) (ucast (gpio_id_cnt sc))"
    unfolding gpio_list_valid_def gpio_list_valid_from_iff u gpio_valid_iff
    using assms(4) by simp
  let ?n = "ucast (gpio_id_cnt sc - 2) :: 8 word"
  let ?cfg3 = "(pads_cfg sc)\<lparr>n_pads := ?n, n_pad_gpios := ?n,
      gpio := fold (\<lambda>i g. g(i := gpio_get_bit (ucast (gpio_id sc i))))
                [0..<unat (gpio_id_cnt sc)] (gpio (pads_cfg sc))\<rparr>"
  from cs have "unat ?n \<le> 5" by auto
  then have "\<forall>i \<in> set [0..<unat (n_pads ?cfg3)]. i < 5 \<and> allocate_device env i \<noteq> NULL
      \<and> kzalloc_ok env i \<and> register_device env i = 0"
    using assms(6) by simp
  from pads_setup_from_succeeds [OF this]
  obtain cfg4 where "pads_setup ?cfg3 env = Inr (cfg4, 0)"
    unfolding pads_setup_def by blast
  with assms(1,2,3,5) v show ?thesis
    by (auto simp: snescon_init_def Let_def fold_gpio_update
        MIN_NUMBER_OF_GPIOS_def MAX_NUMBER_OF_GPIOS_def)
qed

lemma upt_0_6: "[0..<6] = [0, 1, 2, 3, 4, 5]" by (simp add: upt_rec)

lemma snescon_init_6pin:
  "snescon_init (snescon_config_load [2, 3, 4, 7, 9, 10] True) env_ok =
     Inr (0, (snescon_config_load [2, 3, 4, 7, 9, 10] True)\<lparr>pads_cfg := cfg_6pin\<rparr>)"
  by (simp add: init_eval upt_0_6 cfg_6pin_def)

lemma cfg_6pin_range: "n_pad_gpios cfg_6pin \<le> n_pads cfg_6pin" "n_pads cfg_6pin \<le> 5"
  by (simp_all add: cfg_6pin_def)

subsection \<open>The capture sequence\<close>

text \<open>
  Claim C7. A frame capture appends to the hardware log exactly: clock and latch
  raised in one write, a wait of twice \<open>DELAY\<close>, latch dropped; then 24 times
  wait \<open>DELAY\<close>, drop the clock, read the level register, wait \<open>DELAY\<close>, raise the
  clock. It makes exactly 24 reads, and the frame holds the 24 samples (the
  negated level register) in the order of the reads.
\<close>

theorem pads_read_sequence:
  assumes "length data = BUFFER_SIZE"
  shows "pads_read cfg data hw =
     (map (\<lambda>i. NOT (lev hw (nreads hw + i))) [0..<24],
      hw\<lparr>nreads := nreads hw + 24,
         ops := ops hw
                @ [GPIO_SET (gpio cfg 0 OR gpio cfg 1), UDELAY (2 * DELAY), GPIO_CLR (gpio cfg 1)]
                @ concat (replicate 24
                    [UDELAY DELAY, GPIO_CLR (gpio cfg 0), GPIO_LEV, UDELAY DELAY,
                     GPIO_SET (gpio cfg 0)])\<rparr>)"
proof -
  have n: "BITS_LENGTH \<le> length data"
    using assms by (simp add: BITS_LENGTH_def BUFFER_SIZE_def)
  show ?thesis
    unfolding pads_read_def Let_def pads_read_loop [OF n]
    using assms
    by (simp add: BITS_LENGTH_def BUFFER_SIZE_def udelay_def gpio_clear_def gpio_set_def
        mult.commute del: replicate_Suc)
qed

theorem pads_read_sequence_witness:
  "length (replicate 24 (0 :: 32 word)) = BUFFER_SIZE \<and>
   pads_read cfg_3pin (replicate 24 0) hw_idle =
     (replicate 24 0,
      \<lparr>lev = (\<lambda>k. NOT 0), nreads = 24,
       ops = [GPIO_SET 12, UDELAY 12, GPIO_CLR 8]
             @ concat (replicate 24 [UDELAY 6, GPIO_CLR 4, GPIO_LEV, UDELAY 6, GPIO_SET 4])\<rparr>)"
proof (intro conjI)
  show len: "length (replicate 24 (0 :: 32 word)) = BUFFER_SIZE"
    by (simp add: BUFFER_SIZE_def)
  show "pads_read cfg_3pin (replicate 24 0) hw_idle =
     (replicate 24 0,
      \<lparr>lev = (\<lambda>k. NOT 0), nreads = 24,
       ops = [GPIO_SET 12, UDELAY 12, GPIO_CLR 8]
             @ concat (replicate 24 [UDELAY 6, GPIO_CLR 4, GPIO_LEV, UDELAY 6, GPIO_SET 4])\<rparr>)"
    using pads_read_sequence [OF len, of cfg_3pin hw_idle]
    by (simp add: map_replicate_const cfg_3pin_def hw_idle_def hw_of_samples_def DELAY_def
        del: replicate_Suc)
qed

subsection \<open>Plain multiplexed decoding\<close>

text \<open>
  In the plain path every slot sends eleven events (eight keys, two axes, one
  sync), so the events of slot \<open>i\<close> are the eleven from position \<open>11 * i\<close> on. The
  plain path returns without a fault when the number of data lines is at most
  the number of pads and that is at most five, as \<open>snescon_init\<close> sets them.
\<close>

text \<open>
  Claim C8. In plain mode a slot decoded as a NES gamepad (the test
  \<open>(g & data[16]) == 1\<close> fails) sends the first four labels of \<open>nes_btn_label\<close> with
  the samples 0, 1, 2, 3 of its pin and sends each of the four remaining labels
  \<open>BTN_X\<close>, \<open>BTN_Y\<close>, \<open>BTN_TL\<close>, \<open>BTN_TR\<close> with the value 0 in the same poll, before the
  axes and the sync.
\<close>

theorem nes_gamepad_report:
  assumes "\<not> (fourscore_enabled cfg \<and> fourscore_connected cfg (frame hw))"
      and "n_pad_gpios cfg \<le> n_pads cfg" and "n_pads cfg \<le> 5"
      and "i < unat (n_pad_gpios cfg)"
      and "(gpio cfg (i + 2) AND frame hw ! 16) \<noteq> 1"
  shows "\<exists>cfg' hw' evs. pads_update cfg hw = Inr (cfg', hw', evs) \<and>
           take 11 (drop (11 * i) evs) =
             [Key (pad cfg i) BTN_A (gpio cfg (i + 2) AND frame hw ! 0),
              Key (pad cfg i) BTN_B (gpio cfg (i + 2) AND frame hw ! 1),
              Key (pad cfg i) BTN_SELECT (gpio cfg (i + 2) AND frame hw ! 2),
              Key (pad cfg i) BTN_START (gpio cfg (i + 2) AND frame hw ! 3),
              Key (pad cfg i) BTN_X 0,
              Key (pad cfg i) BTN_Y 0,
              Key (pad cfg i) BTN_TL 0,
              Key (pad cfg i) BTN_TR 0,
              Abs (pad cfg i) ABS_X (lnot (gpio cfg (i + 2) AND frame hw ! 6)
                                      - lnot (gpio cfg (i + 2) AND frame hw ! 7)),
              Abs (pad cfg i) ABS_Y (lnot (gpio cfg (i + 2) AND frame hw ! 4)
                                      - lnot (gpio cfg (i + 2) AND frame hw ! 5)),
              Sync (pad cfg i)]"
proof -
  have "gamepad_report cfg (frame hw) i =
          pad_report_nes (pad cfg i) (gpio cfg (i + 2)) (frame hw)"
    using assms(5) by (simp add: gamepad_report_def)
  with plain_slot_block [OF assms(1-4)] show ?thesis
    by (simp add: pad_report_nes_unfold)
qed

theorem nes_gamepad_report_witness:
  "\<not> (fourscore_enabled cfg_3pin \<and> fourscore_connected cfg_3pin (frame hw_right_a)) \<and>
   n_pad_gpios cfg_3pin \<le> n_pads cfg_3pin \<and> n_pads cfg_3pin \<le> 5 \<and>
   0 < unat (n_pad_gpios cfg_3pin) \<and>
   (gpio cfg_3pin (0 + 2) AND frame hw_right_a ! 16) \<noteq> 1 \<and>
   (\<exists>cfg' hw' evs. pads_update cfg_3pin hw_right_a = Inr (cfg', hw', evs) \<and>
      take 11 (drop (11 * 0) evs) =
        [Key (Dev 0) BTN_A 16, Key (Dev 0) BTN_B 0, Key (Dev 0) BTN_SELECT 0,
         Key (Dev 0) BTN_START 0, Key (Dev 0) BTN_X 0, Key (Dev 0) BTN_Y 0,
         Key (Dev 0) BTN_TL 0, Key (Dev 0) BTN_TR 0,
         Abs (Dev 0) ABS_X 1, Abs (Dev 0) ABS_Y 0, Sync (Dev 0)])"
proof -
  have nes: "(gpio cfg_3pin (0 + 2) AND frame hw_right_a ! 16) \<noteq> 1"
    by (simp add: cfg_3pin_def hw_right_a_def frame_samples)
  have "\<exists>cfg' hw' evs. pads_update cfg_3pin hw_right_a = Inr (cfg', hw', evs) \<and>
      take 11 (drop (11 * 0) evs) =
        [Key (Dev 0) BTN_A 16, Key (Dev 0) BTN_B 0, Key (Dev 0) BTN_SELECT 0,
         Key (Dev 0) BTN_START 0, Key (Dev 0) BTN_X 0, Key (Dev 0) BTN_Y 0,
         Key (Dev 0) BTN_TL 0, Key (Dev 0) BTN_TR 0,
         Abs (Dev 0) ABS_X 1, Abs (Dev 0) ABS_Y 0, Sync (Dev 0)]"
    using nes_gamepad_report [OF cfg_3pin_plain cfg_3pin_range nes]
    by (simp add: cfg_3pin_def hw_right_a_def frame_samples lnot_def)
  with nes cfg_3pin_plain cfg_3pin_range show ?thesis by blast
qed

text \<open>
  Claim C1, evaluated on a frame of a SNES pad on GPIO 4: the bit of the pin in
  sample 16 is set, and so is the bit of sample 8, yet the slot is decoded as a
  NES gamepad: the four SNES-only labels are sent as 0 and sample 8 is not
  reported. The test \<open>(g & data[16]) == 1\<close> compares the masked sample with the
  number 1, which only the mask of GPIO 0 can give.
\<close>

theorem snes_discriminant_nonzero_decoded_nes:
  "(gpio cfg_3pin 2 AND frame hw_snes_a ! 16) \<noteq> 0 \<and>
   (gpio cfg_3pin 2 AND frame hw_snes_a ! 8) \<noteq> 0 \<and>
   dispatched (pads_update cfg_3pin hw_snes_a) =
     Some [Key (Dev 0) BTN_A 0, Key (Dev 0) BTN_B 0, Key (Dev 0) BTN_SELECT 0,
           Key (Dev 0) BTN_START 0, Key (Dev 0) BTN_X 0, Key (Dev 0) BTN_Y 0,
           Key (Dev 0) BTN_TL 0, Key (Dev 0) BTN_TR 0,
           Abs (Dev 0) ABS_X 0, Abs (Dev 0) ABS_Y 0, Sync (Dev 0)]"
  unfolding pads_update_plain [OF cfg_3pin_plain cfg_3pin_range(1,2)]
  by (simp add: plain_eval cfg_3pin_def hw_snes_a_def)

subsection \<open>The axes\<close>

text \<open>
  Claim C5. For every slot decoded in the plain path (on either branch), with
  the bits of the slot's pin in the samples 6 and 7: both zero gives the
  horizontal value 0; sample 6 zero and sample 7 set gives \<open>+1\<close>; sample 6 set and
  sample 7 zero gives \<open>-1\<close>; both set gives 0. The vertical value follows the same
  table with the samples 4 and 5. The axes are the ninth and tenth event of the
  slot's report.
\<close>

theorem axis_truth_table:
  assumes "\<not> (fourscore_enabled cfg \<and> fourscore_connected cfg (frame hw))"
      and "n_pad_gpios cfg \<le> n_pads cfg" and "n_pads cfg \<le> 5"
      and "i < unat (n_pad_gpios cfg)"
  shows "\<exists>cfg' hw' evs h v.
           pads_update cfg hw = Inr (cfg', hw', evs) \<and>
           evs ! (11 * i + 8) = Abs (pad cfg i) ABS_X h \<and>
           evs ! (11 * i + 9) = Abs (pad cfg i) ABS_Y v \<and>
           ((gpio cfg (i + 2) AND frame hw ! 6) = 0 \<and> (gpio cfg (i + 2) AND frame hw ! 7) = 0
              \<longrightarrow> h = 0) \<and>
           ((gpio cfg (i + 2) AND frame hw ! 6) = 0 \<and> (gpio cfg (i + 2) AND frame hw ! 7) \<noteq> 0
              \<longrightarrow> h = 1) \<and>
           ((gpio cfg (i + 2) AND frame hw ! 6) \<noteq> 0 \<and> (gpio cfg (i + 2) AND frame hw ! 7) = 0
              \<longrightarrow> h = - 1) \<and>
           ((gpio cfg (i + 2) AND frame hw ! 6) \<noteq> 0 \<and> (gpio cfg (i + 2) AND frame hw ! 7) \<noteq> 0
              \<longrightarrow> h = 0) \<and>
           ((gpio cfg (i + 2) AND frame hw ! 4) = 0 \<and> (gpio cfg (i + 2) AND frame hw ! 5) = 0
              \<longrightarrow> v = 0) \<and>
           ((gpio cfg (i + 2) AND frame hw ! 4) = 0 \<and> (gpio cfg (i + 2) AND frame hw ! 5) \<noteq> 0
              \<longrightarrow> v = 1) \<and>
           ((gpio cfg (i + 2) AND frame hw ! 4) \<noteq> 0 \<and> (gpio cfg (i + 2) AND frame hw ! 5) = 0
              \<longrightarrow> v = - 1) \<and>
           ((gpio cfg (i + 2) AND frame hw ! 4) \<noteq> 0 \<and> (gpio cfg (i + 2) AND frame hw ! 5) \<noteq> 0
              \<longrightarrow> v = 0)"
proof -
  from plain_slot_axes [OF assms] obtain cfg' hw' evs where
    r: "pads_update cfg hw = Inr (cfg', hw', evs)" and
    x: "evs ! (11 * i + 8) =
          Abs (pad cfg i) ABS_X (lnot (gpio cfg (i + 2) AND frame hw ! 6)
                                  - lnot (gpio cfg (i + 2) AND frame hw ! 7))" and
    y: "evs ! (11 * i + 9) =
          Abs (pad cfg i) ABS_Y (lnot (gpio cfg (i + 2) AND frame hw ! 4)
                                  - lnot (gpio cfg (i + 2) AND frame hw ! 5))"
    by blast
  show ?thesis
    apply (intro exI [of _ cfg'] exI [of _ hw'] exI [of _ evs])
    apply (rule exI [of _ "lnot (gpio cfg (i + 2) AND frame hw ! 6)
                                  - lnot (gpio cfg (i + 2) AND frame hw ! 7)"])
    apply (rule exI [of _ "lnot (gpio cfg (i + 2) AND frame hw ! 4)
                                  - lnot (gpio cfg (i + 2) AND frame hw ! 5)"])
    apply (simp only: r x y lnot_diff_cases)
    apply simp
    done
qed

theorem axis_truth_table_witness:
  "\<not> (fourscore_enabled cfg_3pin \<and> fourscore_connected cfg_3pin (frame hw_right_a)) \<and>
   n_pad_gpios cfg_3pin \<le> n_pads cfg_3pin \<and> n_pads cfg_3pin \<le> 5 \<and>
   0 < unat (n_pad_gpios cfg_3pin) \<and>
   (gpio cfg_3pin (0 + 2) AND frame hw_right_a ! 6) = 0 \<and>
   (gpio cfg_3pin (0 + 2) AND frame hw_right_a ! 7) \<noteq> 0 \<and>
   (gpio cfg_3pin (0 + 2) AND frame hw_right_a ! 4) = 0 \<and>
   (gpio cfg_3pin (0 + 2) AND frame hw_right_a ! 5) = 0 \<and>
   (\<exists>cfg' hw' evs. pads_update cfg_3pin hw_right_a = Inr (cfg', hw', evs) \<and>
      evs ! (11 * 0 + 8) = Abs (Dev 0) ABS_X 1 \<and>
      evs ! (11 * 0 + 9) = Abs (Dev 0) ABS_Y 0)"
proof -
  have bits: "(gpio cfg_3pin (0 + 2) AND frame hw_right_a ! 6) = 0"
    "(gpio cfg_3pin (0 + 2) AND frame hw_right_a ! 7) \<noteq> 0"
    "(gpio cfg_3pin (0 + 2) AND frame hw_right_a ! 4) = 0"
    "(gpio cfg_3pin (0 + 2) AND frame hw_right_a ! 5) = 0"
    by (simp_all add: cfg_3pin_def hw_right_a_def frame_samples)
  have p: "pad cfg_3pin 0 = Dev 0" by (simp add: cfg_3pin_def)
  from axis_truth_table [OF cfg_3pin_plain cfg_3pin_range, of hw_right_a]
  have "\<exists>cfg' hw' evs. pads_update cfg_3pin hw_right_a = Inr (cfg', hw', evs) \<and>
      evs ! (11 * 0 + 8) = Abs (Dev 0) ABS_X 1 \<and>
      evs ! (11 * 0 + 9) = Abs (Dev 0) ABS_Y 0"
    using bits unfolding p by auto
  with bits cfg_3pin_plain cfg_3pin_range show ?thesis by blast
qed

text \<open>
  Claim C4 as stated takes the horizontal value to be (not bit 7) minus (not bit
  6). On a frame with the bit of sample 7 set and the bit of sample 6 clear the
  driver sends \<open>+1\<close>, and that formula gives \<open>-1\<close>.
\<close>

theorem axis_formula_counterexample:
  "dispatched (pads_update cfg_3pin hw_right_a) =
     Some [Key (Dev 0) BTN_A 16, Key (Dev 0) BTN_B 0, Key (Dev 0) BTN_SELECT 0,
           Key (Dev 0) BTN_START 0, Key (Dev 0) BTN_X 0, Key (Dev 0) BTN_Y 0,
           Key (Dev 0) BTN_TL 0, Key (Dev 0) BTN_TR 0,
           Abs (Dev 0) ABS_X 1, Abs (Dev 0) ABS_Y 0, Sync (Dev 0)] \<and>
   lnot (gpio cfg_3pin 2 AND frame hw_right_a ! 7) - lnot (gpio cfg_3pin 2 AND frame hw_right_a ! 6)
     = - 1"
  by (simp add: pads_update_3pin_right_a)
     (simp add: cfg_3pin_def hw_right_a_def frame_samples lnot_def)

text \<open>
  Claim C4, amended: for every slot decoded in the plain path the horizontal
  value is (not bit 6) minus (not bit 7) and the vertical value is (not bit 4)
  minus (not bit 5), bits of the slot's pin; each is \<open>-1\<close>, 0 or \<open>+1\<close>.
\<close>

theorem axis_formula:
  assumes "\<not> (fourscore_enabled cfg \<and> fourscore_connected cfg (frame hw))"
      and "n_pad_gpios cfg \<le> n_pads cfg" and "n_pads cfg \<le> 5"
      and "i < unat (n_pad_gpios cfg)"
  shows "\<exists>cfg' hw' evs.
           pads_update cfg hw = Inr (cfg', hw', evs) \<and>
           evs ! (11 * i + 8) =
             Abs (pad cfg i) ABS_X (lnot (gpio cfg (i + 2) AND frame hw ! 6)
                                     - lnot (gpio cfg (i + 2) AND frame hw ! 7)) \<and>
           evs ! (11 * i + 9) =
             Abs (pad cfg i) ABS_Y (lnot (gpio cfg (i + 2) AND frame hw ! 4)
                                     - lnot (gpio cfg (i + 2) AND frame hw ! 5)) \<and>
           lnot (gpio cfg (i + 2) AND frame hw ! 6) - lnot (gpio cfg (i + 2) AND frame hw ! 7)
             \<in> {- 1, 0, 1} \<and>
           lnot (gpio cfg (i + 2) AND frame hw ! 4) - lnot (gpio cfg (i + 2) AND frame hw ! 5)
             \<in> {- 1, 0, 1}"
proof -
  have "lnot a - lnot b \<in> {- 1, 0, 1}" for a b
    by (simp add: lnot_def)
  with plain_slot_axes [OF assms] show ?thesis by blast
qed

theorem axis_formula_witness:
  "\<not> (fourscore_enabled cfg_3pin \<and> fourscore_connected cfg_3pin (frame hw_right_a)) \<and>
   n_pad_gpios cfg_3pin \<le> n_pads cfg_3pin \<and> n_pads cfg_3pin \<le> 5 \<and>
   0 < unat (n_pad_gpios cfg_3pin) \<and>
   (\<exists>cfg' hw' evs. pads_update cfg_3pin hw_right_a = Inr (cfg', hw', evs) \<and>
      evs ! (11 * 0 + 8) = Abs (Dev 0) ABS_X 1 \<and>
      evs ! (11 * 0 + 9) = Abs (Dev 0) ABS_Y 0)"
proof -
  from axis_formula [OF cfg_3pin_plain cfg_3pin_range, of hw_right_a]
  have "\<exists>cfg' hw' evs. pads_update cfg_3pin hw_right_a = Inr (cfg', hw', evs) \<and>
      evs ! (11 * 0 + 8) = Abs (Dev 0) ABS_X 1 \<and>
      evs ! (11 * 0 + 9) = Abs (Dev 0) ABS_Y 0"
    by (simp add: cfg_3pin_def hw_right_a_def frame_samples lnot_def)
  with cfg_3pin_plain cfg_3pin_range show ?thesis by blast
qed

subsection \<open>Shrinking the player mode\<close>




subsection \<open>Selecting the FourScore decoding\<close>

text \<open>
  Claim C2 as stated puts the high bit of sample 18 on the pull-up line and the
  high bit of sample 19 on data line 3. In the layout of the \<open>gpio\<close> parameter,
  clock, latch, data lines 1 to 3, then the line without a pull-up, these are
  \<open>gpio[5]\<close> and \<open>gpio[4]\<close>. For \<open>gpio=2,3,4,7,9,10 fourscore=1\<close> a frame that
  carries exactly that pattern on \<open>gpio[5]\<close> and \<open>gpio[4]\<close> does not pass
  \<open>fourscore_connected\<close>, and the poll decodes the four slots on the plain branch.
\<close>

theorem fourscore_line_identity_counterexample:
  "snescon_init (snescon_config_load [2, 3, 4, 7, 9, 10] True) env_ok =
     Inr (0, (snescon_config_load [2, 3, 4, 7, 9, 10] True)\<lparr>pads_cfg := cfg_6pin\<rparr>) \<and>
   fourscore_enabled cfg_6pin \<and>
   fourscore_signature (gpio cfg_6pin 5) (gpio cfg_6pin 4) (frame hw_signature_last_lines) \<and>
   \<not> fourscore_connected cfg_6pin (frame hw_signature_last_lines) \<and>
   pads_update cfg_6pin hw_signature_last_lines =
     (case update_plain cfg_6pin (frame hw_signature_last_lines) of
        Inl e \<Rightarrow> Inl e
      | Inr (cfg', evs) \<Rightarrow>
          Inr (cfg', snd (pads_read cfg_6pin (replicate BUFFER_SIZE 0) hw_signature_last_lines),
               evs)) \<and>
   dispatched (pads_update cfg_6pin hw_signature_last_lines) =
     Some (gamepad_report cfg_6pin (frame hw_signature_last_lines) 0
           @ gamepad_report cfg_6pin (frame hw_signature_last_lines) 1
           @ gamepad_report cfg_6pin (frame hw_signature_last_lines) 2
           @ gamepad_report cfg_6pin (frame hw_signature_last_lines) 3)"
proof -
  have en: "fourscore_enabled cfg_6pin" by (simp add: cfg_6pin_def)
  have sg: "fourscore_signature (gpio cfg_6pin 5) (gpio cfg_6pin 4) (frame hw_signature_last_lines)"
    by (simp add: fourscore_signature_def upt_16_24 cfg_6pin_def hw_signature_last_lines_def
        frame_samples)
  have nc: "\<not> fourscore_connected cfg_6pin (frame hw_signature_last_lines)"
    by (simp add: fourscore_connected_def cfg_6pin_def hw_signature_last_lines_def frame_samples)
  then have n: "\<not> (fourscore_enabled cfg_6pin
                  \<and> fourscore_connected cfg_6pin (frame hw_signature_last_lines))"
    by simp
  have pl: "pads_update cfg_6pin hw_signature_last_lines =
     (case update_plain cfg_6pin (frame hw_signature_last_lines) of
        Inl e \<Rightarrow> Inl e
      | Inr (cfg', evs) \<Rightarrow>
          Inr (cfg', snd (pads_read cfg_6pin (replicate BUFFER_SIZE 0) hw_signature_last_lines),
               evs))"
    unfolding pads_update_frame if_not_P [OF n] ..
  have d: "dispatched (pads_update cfg_6pin hw_signature_last_lines) =
     Some (gamepad_report cfg_6pin (frame hw_signature_last_lines) 0
           @ gamepad_report cfg_6pin (frame hw_signature_last_lines) 1
           @ gamepad_report cfg_6pin (frame hw_signature_last_lines) 2
           @ gamepad_report cfg_6pin (frame hw_signature_last_lines) 3)"
    unfolding pads_update_plain [OF n cfg_6pin_range]
    by (simp add: cfg_6pin_def dispatched_def upt_0_4)
  from snescon_init_6pin en sg nc pl d show ?thesis by simp
qed

text \<open>
  Claim C2, amended: the two tested lines are the first two data lines. A poll
  decodes on the FourScore branch if and only if \<open>fourscore_enabled\<close> is set and
  the captured frame carries the signature: of the sixteen bits of \<open>gpio[3]\<close>
  (data line 2) and \<open>gpio[2]\<close> (data line 1) at the samples 16 to 23 all are low
  except that of \<open>gpio[3]\<close> at sample 18 and that of \<open>gpio[2]\<close> at sample 19;
  otherwise it decodes on the plain branch. In particular a frame that differs
  from a frame with the signature in one of the sixteen tested bits is decoded
  on the plain branch.
\<close>

theorem fourscore_selection:
  "pads_update cfg hw =
     (case (if fourscore_enabled cfg \<and> fourscore_signature (gpio cfg 3) (gpio cfg 2) (frame hw)
            then update_fourscore cfg (frame hw)
            else update_plain cfg (frame hw)) of
        Inl e \<Rightarrow> Inl e
      | Inr (cfg', evs) \<Rightarrow> Inr (cfg', snd (pads_read cfg (replicate BUFFER_SIZE 0) hw), evs)) \<and>
   (fourscore_signature (gpio cfg 3) (gpio cfg 2) (frame hw) \<and> k \<in> {16..<24} \<and>
    (((gpio cfg 3 AND frame hw2 ! k) \<noteq> 0) \<noteq> ((gpio cfg 3 AND frame hw ! k) \<noteq> 0)
     \<or> ((gpio cfg 2 AND frame hw2 ! k) \<noteq> 0) \<noteq> ((gpio cfg 2 AND frame hw ! k) \<noteq> 0))
    \<longrightarrow> pads_update cfg hw2 =
          (case update_plain cfg (frame hw2) of
             Inl e \<Rightarrow> Inl e
           | Inr (cfg', evs) \<Rightarrow>
               Inr (cfg', snd (pads_read cfg (replicate BUFFER_SIZE 0) hw2), evs)))"
proof (intro conjI impI)
  show "pads_update cfg hw =
     (case (if fourscore_enabled cfg \<and> fourscore_signature (gpio cfg 3) (gpio cfg 2) (frame hw)
            then update_fourscore cfg (frame hw)
            else update_plain cfg (frame hw)) of
        Inl e \<Rightarrow> Inl e
      | Inr (cfg', evs) \<Rightarrow> Inr (cfg', snd (pads_read cfg (replicate BUFFER_SIZE 0) hw), evs))"
    unfolding pads_update_frame fourscore_connected_signature ..
next
  assume a: "fourscore_signature (gpio cfg 3) (gpio cfg 2) (frame hw) \<and> k \<in> {16..<24} \<and>
    (((gpio cfg 3 AND frame hw2 ! k) \<noteq> 0) \<noteq> ((gpio cfg 3 AND frame hw ! k) \<noteq> 0)
     \<or> ((gpio cfg 2 AND frame hw2 ! k) \<noteq> 0) \<noteq> ((gpio cfg 2 AND frame hw ! k) \<noteq> 0))"
  then have "\<not> fourscore_signature (gpio cfg 3) (gpio cfg 2) (frame hw2)"
    using fourscore_signature_deviation [of "gpio cfg 3" "gpio cfg 2" "frame hw" k "frame hw2"]
    by blast
  then have n: "\<not> (fourscore_enabled cfg \<and> fourscore_connected cfg (frame hw2))"
    unfolding fourscore_connected_signature by simp
  show "pads_update cfg hw2 =
          (case update_plain cfg (frame hw2) of
             Inl e \<Rightarrow> Inl e
           | Inr (cfg', evs) \<Rightarrow>
               Inr (cfg', snd (pads_read cfg (replicate BUFFER_SIZE 0) hw2), evs))"
    unfolding pads_update_frame if_not_P [OF n] ..
qed

theorem fourscore_selection_witness:
  "fourscore_enabled cfg_4pin \<and>
   fourscore_signature (gpio cfg_4pin 3) (gpio cfg_4pin 2) (frame hw_fourscore) \<and>
   (16 :: nat) \<in> {16..<24} \<and>
   ((gpio cfg_4pin 2 AND frame hw_fourscore_deviating ! 16) \<noteq> 0)
     \<noteq> ((gpio cfg_4pin 2 AND frame hw_fourscore ! 16) \<noteq> 0) \<and>
   dispatched (pads_update cfg_4pin hw_fourscore) =
     Some [Key (Dev 0) BTN_A 0, Key (Dev 0) BTN_B 0, Key (Dev 0) BTN_SELECT 0,
           Key (Dev 0) BTN_START 0, Abs (Dev 0) ABS_X 0, Abs (Dev 0) ABS_Y 0, Sync (Dev 0),
           Key (Dev 1) BTN_A 0, Key (Dev 1) BTN_B 0, Key (Dev 1) BTN_SELECT 0,
           Key (Dev 1) BTN_START 0, Abs (Dev 1) ABS_X 0, Abs (Dev 1) ABS_Y 0, Sync (Dev 1),
           Key NULL BTN_A 0, Key NULL BTN_B 0, Key NULL BTN_SELECT 0,
           Key NULL BTN_START 0, Abs NULL ABS_X 0, Abs NULL ABS_Y 0, Sync NULL,
           Key NULL BTN_A 0, Key NULL BTN_B 0, Key NULL BTN_SELECT 0,
           Key NULL BTN_START 0, Abs NULL ABS_X 0, Abs NULL ABS_Y 0, Sync NULL] \<and>
   dispatched (pads_update cfg_4pin hw_fourscore_deviating) =
     Some [Key (Dev 0) BTN_A 0, Key (Dev 0) BTN_B 0, Key (Dev 0) BTN_SELECT 0,
           Key (Dev 0) BTN_START 0, Key (Dev 0) BTN_X 0, Key (Dev 0) BTN_Y 0,
           Key (Dev 0) BTN_TL 0, Key (Dev 0) BTN_TR 0,
           Abs (Dev 0) ABS_X 0, Abs (Dev 0) ABS_Y 0, Sync (Dev 0),
           Key (Dev 1) BTN_A 0, Key (Dev 1) BTN_B 0, Key (Dev 1) BTN_SELECT 0,
           Key (Dev 1) BTN_START 0, Key (Dev 1) BTN_X 0, Key (Dev 1) BTN_Y 0,
           Key (Dev 1) BTN_TL 0, Key (Dev 1) BTN_TR 0,
           Abs (Dev 1) ABS_X 0, Abs (Dev 1) ABS_Y 0, Sync (Dev 1)]"
proof -
  have en: "fourscore_enabled cfg_4pin" by (simp add: cfg_4pin_def)
  have sg: "fourscore_signature (gpio cfg_4pin 3) (gpio cfg_4pin 2) (frame hw_fourscore)"
    using cfg_4pin_fourscore unfolding fourscore_connected_signature by simp
  have k: "(16 :: nat) \<in> {16..<24}" by simp
  have dv: "((gpio cfg_4pin 2 AND frame hw_fourscore_deviating ! 16) \<noteq> 0)
              \<noteq> ((gpio cfg_4pin 2 AND frame hw_fourscore ! 16) \<noteq> 0)"
    by (simp add: cfg_4pin_def hw_fourscore_def hw_fourscore_deviating_def frame_samples)
  note sel = fourscore_selection [of cfg_4pin hw_fourscore 16 hw_fourscore_deviating]
  have four: "pads_update cfg_4pin hw_fourscore =
     (case update_fourscore cfg_4pin (frame hw_fourscore) of
        Inl e \<Rightarrow> Inl e
      | Inr (cfg', evs) \<Rightarrow>
          Inr (cfg', snd (pads_read cfg_4pin (replicate BUFFER_SIZE 0) hw_fourscore), evs))"
    using sel en sg by simp
  have plain: "pads_update cfg_4pin hw_fourscore_deviating =
     (case update_plain cfg_4pin (frame hw_fourscore_deviating) of
        Inl e \<Rightarrow> Inl e
      | Inr (cfg', evs) \<Rightarrow>
          Inr (cfg', snd (pads_read cfg_4pin (replicate BUFFER_SIZE 0) hw_fourscore_deviating), evs))"
    using sel sg k dv by blast
  have pm: "\<not> player_mode cfg_4pin > 4" by (simp add: cfg_4pin_def)
  have d1: "dispatched (pads_update cfg_4pin hw_fourscore) =
     Some (fourscore_report_12 cfg_4pin (frame hw_fourscore) 0
   @ fourscore_report_12 cfg_4pin (frame hw_fourscore) 1
   @ fourscore_report_34 cfg_4pin (frame hw_fourscore) 2
   @ fourscore_report_34 cfg_4pin (frame hw_fourscore) 3)"
    unfolding four update_fourscore_result if_not_P [OF pm] by (simp add: dispatched_def)
  have d2: "dispatched (pads_update cfg_4pin hw_fourscore_deviating) =
     Some [Key (Dev 0) BTN_A 0, Key (Dev 0) BTN_B 0, Key (Dev 0) BTN_SELECT 0,
           Key (Dev 0) BTN_START 0, Key (Dev 0) BTN_X 0, Key (Dev 0) BTN_Y 0,
           Key (Dev 0) BTN_TL 0, Key (Dev 0) BTN_TR 0,
           Abs (Dev 0) ABS_X 0, Abs (Dev 0) ABS_Y 0, Sync (Dev 0),
           Key (Dev 1) BTN_A 0, Key (Dev 1) BTN_B 0, Key (Dev 1) BTN_SELECT 0,
           Key (Dev 1) BTN_START 0, Key (Dev 1) BTN_X 0, Key (Dev 1) BTN_Y 0,
           Key (Dev 1) BTN_TL 0, Key (Dev 1) BTN_TR 0,
           Abs (Dev 1) ABS_X 0, Abs (Dev 1) ABS_Y 0, Sync (Dev 1)]"
    unfolding plain update_plain_result [OF cfg_4pin_range(1,3)]
    by (simp add: plain_eval cfg_4pin_def hw_fourscore_deviating_def upt_0_2)
  from en sg k dv d1 [unfolded fourscore_reports_4pin] d2 show ?thesis by blast
qed

subsection \<open>The player mode\<close>

text \<open>
  Claim C10. A poll returns when the data lines are at most the pads and there
  are between one and five pads. Whenever a poll returns, it leaves
  \<open>n_pad_gpios\<close> unchanged and: if \<open>player_mode \<le> max 4 n_pad_gpios\<close> held before,
  it holds after; on the plain branch the player mode does not increase; on the
  FourScore branch the player mode is 4 afterwards.
\<close>

theorem player_mode_invariant:
  "(n_pad_gpios cfg \<le> n_pads cfg \<and> 1 \<le> n_pads cfg \<and> n_pads cfg \<le> 5
      \<longrightarrow> (\<exists>r. pads_update cfg hw = Inr r)) \<and>
   (\<forall>cfg' hw' evs. pads_update cfg hw = Inr (cfg', hw', evs) \<longrightarrow>
      n_pad_gpios cfg' = n_pad_gpios cfg \<and>
      (player_mode cfg \<le> max 4 (n_pad_gpios cfg)
         \<longrightarrow> player_mode cfg' \<le> max 4 (n_pad_gpios cfg')) \<and>
      (\<not> (fourscore_enabled cfg \<and> fourscore_connected cfg (frame hw))
         \<longrightarrow> player_mode cfg' \<le> player_mode cfg) \<and>
      (fourscore_enabled cfg \<and> fourscore_connected cfg (frame hw)
         \<longrightarrow> player_mode cfg' = 4))"
proof (intro conjI impI allI)
  assume b: "n_pad_gpios cfg \<le> n_pads cfg \<and> 1 \<le> n_pads cfg \<and> n_pads cfg \<le> 5"
  then have u: "1 \<le> uint (n_pads cfg) \<and> uint (n_pads cfg) \<le> 5"
    by (simp add: word_le_def)
  show "\<exists>r. pads_update cfg hw = Inr r"
  proof (cases "fourscore_enabled cfg \<and> fourscore_connected cfg (frame hw)")
    case True
    then show ?thesis
      unfolding pads_update_frame update_fourscore_result using u by simp
  next
    case False
    from b have "n_pad_gpios cfg \<le> n_pads cfg" "n_pads cfg \<le> 5" by simp_all
    from pads_update_plain [OF False this] show ?thesis by blast
  qed
next
  fix cfg' hw' evs
  assume r: "pads_update cfg hw = Inr (cfg', hw', evs)"
  show "n_pad_gpios cfg' = n_pad_gpios cfg"
    using r unfolding pads_update_frame update_fourscore_result
    by (auto simp: update_plain_def Let_def split: if_splits sum.splits)
  show "player_mode cfg' \<le> max 4 (n_pad_gpios cfg')"
    if "player_mode cfg \<le> max 4 (n_pad_gpios cfg)"
    using r that unfolding pads_update_frame update_fourscore_result
    by (auto simp: update_plain_def Let_def split: if_splits sum.splits)
  show "player_mode cfg' \<le> player_mode cfg"
    if "\<not> (fourscore_enabled cfg \<and> fourscore_connected cfg (frame hw))"
    using r unfolding pads_update_frame if_not_P [OF that]
    by (auto simp: update_plain_def Let_def split: if_splits sum.splits)
  show "player_mode cfg' = 4"
    if "fourscore_enabled cfg \<and> fourscore_connected cfg (frame hw)"
    using r unfolding pads_update_frame if_P [OF that] update_fourscore_result
    by (auto split: if_splits)
qed

theorem player_mode_invariant_witness:
  "n_pad_gpios cfg_4pin \<le> n_pads cfg_4pin \<and> 1 \<le> n_pads cfg_4pin \<and> n_pads cfg_4pin \<le> 5 \<and>
   player_mode cfg_4pin \<le> max 4 (n_pad_gpios cfg_4pin) \<and>
   fourscore_enabled cfg_4pin \<and> fourscore_connected cfg_4pin (frame hw_fourscore) \<and>
   (\<exists>cfg' hw' evs. pads_update cfg_4pin hw_fourscore = Inr (cfg', hw', evs) \<and>
      n_pad_gpios cfg' = 2 \<and> player_mode cfg' = 4 \<and>
      player_mode cfg' \<le> max 4 (n_pad_gpios cfg')) \<and>
   \<not> (fourscore_enabled (cfg_4pin\<lparr>player_mode := 4\<rparr>)
       \<and> fourscore_connected (cfg_4pin\<lparr>player_mode := 4\<rparr>) (frame hw_idle)) \<and>
   (\<exists>cfg' hw' evs. pads_update (cfg_4pin\<lparr>player_mode := 4\<rparr>) hw_idle = Inr (cfg', hw', evs) \<and>
      n_pad_gpios cfg' = 2 \<and> player_mode cfg' \<le> 4)"
proof -
  have m: "player_mode cfg_4pin \<le> max 4 (n_pad_gpios cfg_4pin)"
    and n: "n_pad_gpios cfg_4pin = 2"
    by (simp_all add: cfg_4pin_def)
  note inv1 = player_mode_invariant [of cfg_4pin hw_fourscore]
  from inv1 cfg_4pin_range obtain r where "pads_update cfg_4pin hw_fourscore = Inr r"
    by blast
  then obtain cfg' hw' evs where r1: "pads_update cfg_4pin hw_fourscore = Inr (cfg', hw', evs)"
    by (cases r) auto
  with inv1 m n cfg_4pin_fourscore
  have p1: "n_pad_gpios cfg' = 2 \<and> player_mode cfg' = 4
            \<and> player_mode cfg' \<le> max 4 (n_pad_gpios cfg')"
    by simp
  let ?c = "cfg_4pin\<lparr>player_mode := 4\<rparr>"
  note inv2 = player_mode_invariant [of ?c hw_idle]
  have "n_pad_gpios ?c \<le> n_pads ?c \<and> 1 \<le> n_pads ?c \<and> n_pads ?c \<le> 5"
    by (simp add: cfg_4pin_def)
  with inv2 obtain r' where "pads_update ?c hw_idle = Inr r'"
    by blast
  then obtain cfg2 hw2 evs2 where r2: "pads_update ?c hw_idle = Inr (cfg2, hw2, evs2)"
    by (cases r') auto
  with inv2 cfg_4pin_mode4_plain n
  have p2: "n_pad_gpios cfg2 = 2 \<and> player_mode cfg2 \<le> 4"
    by simp
  from r1 p1 r2 p2 m cfg_4pin_range cfg_4pin_fourscore cfg_4pin_mode4_plain
  show ?thesis by blast
qed

subsection \<open>The FourScore branch and the allocated pads\<close>

text \<open>
  Claim C6 as stated has the slots 2 and 3 without an allocated device for four
  and for five pins. For \<open>gpio=2,3,4,7,9 fourscore=1\<close> start-up allocates the pads
  0, 1 and 2; a poll on the FourScore branch sends the report of slot 2 to the
  allocated device and only that of slot 3 to \<open>NULL\<close>.
\<close>

theorem fourscore_five_pins_counterexample:
  "snescon_init (snescon_config_load [2, 3, 4, 7, 9] True) env_ok =
     Inr (0, (snescon_config_load [2, 3, 4, 7, 9] True)\<lparr>pads_cfg := cfg_5pin\<rparr>) \<and>
   fourscore_enabled cfg_5pin \<and> fourscore_connected cfg_5pin (frame hw_fourscore) \<and>
   pad cfg_5pin 2 = Dev 2 \<and> pad cfg_5pin 3 = NULL \<and>
   dispatched (pads_update cfg_5pin hw_fourscore) =
     Some [Key (Dev 0) BTN_A 0, Key (Dev 0) BTN_B 0, Key (Dev 0) BTN_SELECT 0, Key (Dev 0) BTN_START 0,
           Abs (Dev 0) ABS_X 0, Abs (Dev 0) ABS_Y 0, Sync (Dev 0),
           Key (Dev 1) BTN_A 0, Key (Dev 1) BTN_B 0, Key (Dev 1) BTN_SELECT 0, Key (Dev 1) BTN_START 0,
           Abs (Dev 1) ABS_X 0, Abs (Dev 1) ABS_Y 0, Sync (Dev 1),
           Key (Dev 2) BTN_A 0, Key (Dev 2) BTN_B 0, Key (Dev 2) BTN_SELECT 0, Key (Dev 2) BTN_START 0,
           Abs (Dev 2) ABS_X 0, Abs (Dev 2) ABS_Y 0, Sync (Dev 2),
           Key NULL BTN_A 0, Key NULL BTN_B 0, Key NULL BTN_SELECT 0, Key NULL BTN_START 0,
           Abs NULL ABS_X 0, Abs NULL ABS_Y 0, Sync NULL]"
proof -
  have c: "fourscore_enabled cfg_5pin \<and> fourscore_connected cfg_5pin (frame hw_fourscore)"
    using cfg_5pin_fourscore by simp
  have pm: "\<not> player_mode cfg_5pin > 4" by (simp add: cfg_5pin_def)
  have "dispatched (pads_update cfg_5pin hw_fourscore) =
     Some [Key (Dev 0) BTN_A 0, Key (Dev 0) BTN_B 0, Key (Dev 0) BTN_SELECT 0, Key (Dev 0) BTN_START 0,
           Abs (Dev 0) ABS_X 0, Abs (Dev 0) ABS_Y 0, Sync (Dev 0),
           Key (Dev 1) BTN_A 0, Key (Dev 1) BTN_B 0, Key (Dev 1) BTN_SELECT 0, Key (Dev 1) BTN_START 0,
           Abs (Dev 1) ABS_X 0, Abs (Dev 1) ABS_Y 0, Sync (Dev 1),
           Key (Dev 2) BTN_A 0, Key (Dev 2) BTN_B 0, Key (Dev 2) BTN_SELECT 0, Key (Dev 2) BTN_START 0,
           Abs (Dev 2) ABS_X 0, Abs (Dev 2) ABS_Y 0, Sync (Dev 2),
           Key NULL BTN_A 0, Key NULL BTN_B 0, Key NULL BTN_SELECT 0, Key NULL BTN_START 0,
           Abs NULL ABS_X 0, Abs NULL ABS_Y 0, Sync NULL]"
    unfolding pads_update_frame if_P [OF c] update_fourscore_result if_not_P [OF pm]
    by (simp add: dispatched_def fourscore_report_12_unfold fourscore_report_34_unfold
        cfg_5pin_def hw_fourscore_def frame_samples lnot_def)
  moreover have "pad cfg_5pin 2 = Dev 2" "pad cfg_5pin 3 = NULL"
    by (simp_all add: cfg_5pin_def)
  ultimately show ?thesis
    using snescon_init_5pin cfg_5pin_fourscore by simp
qed

text \<open>
  Claim C6, amended. On the FourScore branch a poll sends four key events, two
  axis events and a sync to each of \<open>pad[0]\<close>, \<open>pad[1]\<close>, \<open>pad[2]\<close>, \<open>pad[3]\<close>, whatever
  the number of data lines is (the poll returns when the player mode is at most
  4, or there are between one and five pads for the clearing of the last one).
  When the pads are those that \<open>snescon_init\<close> allocated for a FourScore-enabled
  configuration of four pins, two pads are allocated and \<open>pad[2]\<close> and \<open>pad[3]\<close> are
  \<open>NULL\<close>; for five pins three pads are allocated, \<open>pad[2]\<close> is a device and
  \<open>pad[3]\<close> is \<open>NULL\<close>.
\<close>

theorem fourscore_reports_unallocated_pads:
  assumes "fourscore_enabled cfg" and "fourscore_connected cfg (frame hw)"
      and "player_mode cfg \<le> 4 \<or> (1 \<le> n_pads cfg \<and> n_pads cfg \<le> 5)"
  shows "(\<exists>cfg' hw' evs. pads_update cfg hw = Inr (cfg', hw', evs) \<and>
           take 28 evs =
             [Key (pad cfg 0) BTN_A (gpio cfg 2 AND frame hw ! 0),
              Key (pad cfg 0) BTN_B (gpio cfg 2 AND frame hw ! 1),
              Key (pad cfg 0) BTN_SELECT (gpio cfg 2 AND frame hw ! 2),
              Key (pad cfg 0) BTN_START (gpio cfg 2 AND frame hw ! 3),
              Abs (pad cfg 0) ABS_X (lnot (gpio cfg 2 AND frame hw ! 6) - lnot (gpio cfg 2 AND frame hw ! 7)),
              Abs (pad cfg 0) ABS_Y (lnot (gpio cfg 2 AND frame hw ! 4) - lnot (gpio cfg 2 AND frame hw ! 5)),
              Sync (pad cfg 0),
              Key (pad cfg 1) BTN_A (gpio cfg 3 AND frame hw ! 0),
              Key (pad cfg 1) BTN_B (gpio cfg 3 AND frame hw ! 1),
              Key (pad cfg 1) BTN_SELECT (gpio cfg 3 AND frame hw ! 2),
              Key (pad cfg 1) BTN_START (gpio cfg 3 AND frame hw ! 3),
              Abs (pad cfg 1) ABS_X (lnot (gpio cfg 3 AND frame hw ! 6) - lnot (gpio cfg 3 AND frame hw ! 7)),
              Abs (pad cfg 1) ABS_Y (lnot (gpio cfg 3 AND frame hw ! 4) - lnot (gpio cfg 3 AND frame hw ! 5)),
              Sync (pad cfg 1),
              Key (pad cfg 2) BTN_A (gpio cfg 2 AND frame hw ! 8),
              Key (pad cfg 2) BTN_B (gpio cfg 2 AND frame hw ! 9),
              Key (pad cfg 2) BTN_SELECT (gpio cfg 2 AND frame hw ! 10),
              Key (pad cfg 2) BTN_START (gpio cfg 2 AND frame hw ! 11),
              Abs (pad cfg 2) ABS_X (lnot (gpio cfg 2 AND frame hw ! 14) - lnot (gpio cfg 2 AND frame hw ! 15)),
              Abs (pad cfg 2) ABS_Y (lnot (gpio cfg 2 AND frame hw ! 12) - lnot (gpio cfg 2 AND frame hw ! 13)),
              Sync (pad cfg 2),
              Key (pad cfg 3) BTN_A (gpio cfg 3 AND frame hw ! 8),
              Key (pad cfg 3) BTN_B (gpio cfg 3 AND frame hw ! 9),
              Key (pad cfg 3) BTN_SELECT (gpio cfg 3 AND frame hw ! 10),
              Key (pad cfg 3) BTN_START (gpio cfg 3 AND frame hw ! 11),
              Abs (pad cfg 3) ABS_X (lnot (gpio cfg 3 AND frame hw ! 14) - lnot (gpio cfg 3 AND frame hw ! 15)),
              Abs (pad cfg 3) ABS_Y (lnot (gpio cfg 3 AND frame hw ! 12) - lnot (gpio cfg 3 AND frame hw ! 13)),
              Sync (pad cfg 3)]) \<and>
         (\<forall>ids env sc.
            snescon_init (snescon_config_load ids True) env = Inr (0, sc)
            \<and> pad cfg = pad (pads_cfg sc) \<longrightarrow>
              (length ids = 4 \<longrightarrow>
                 unat (n_pads (pads_cfg sc)) = 2 \<and> unat (n_pad_gpios (pads_cfg sc)) = 2 \<and>
                 pad cfg 0 \<noteq> NULL \<and> pad cfg 1 \<noteq> NULL \<and> pad cfg 2 = NULL \<and> pad cfg 3 = NULL) \<and>
              (length ids = 5 \<longrightarrow>
                 unat (n_pads (pads_cfg sc)) = 3 \<and> unat (n_pad_gpios (pads_cfg sc)) = 3 \<and>
                 pad cfg 0 \<noteq> NULL \<and> pad cfg 1 \<noteq> NULL \<and> pad cfg 2 \<noteq> NULL \<and> pad cfg 3 = NULL))"
proof (intro conjI allI impI)
  from fourscore_take_28 [OF assms]
  show "\<exists>cfg' hw' evs. pads_update cfg hw = Inr (cfg', hw', evs) \<and>
           take 28 evs =
             [Key (pad cfg 0) BTN_A (gpio cfg 2 AND frame hw ! 0),
              Key (pad cfg 0) BTN_B (gpio cfg 2 AND frame hw ! 1),
              Key (pad cfg 0) BTN_SELECT (gpio cfg 2 AND frame hw ! 2),
              Key (pad cfg 0) BTN_START (gpio cfg 2 AND frame hw ! 3),
              Abs (pad cfg 0) ABS_X (lnot (gpio cfg 2 AND frame hw ! 6) - lnot (gpio cfg 2 AND frame hw ! 7)),
              Abs (pad cfg 0) ABS_Y (lnot (gpio cfg 2 AND frame hw ! 4) - lnot (gpio cfg 2 AND frame hw ! 5)),
              Sync (pad cfg 0),
              Key (pad cfg 1) BTN_A (gpio cfg 3 AND frame hw ! 0),
              Key (pad cfg 1) BTN_B (gpio cfg 3 AND frame hw ! 1),
              Key (pad cfg 1) BTN_SELECT (gpio cfg 3 AND frame hw ! 2),
              Key (pad cfg 1) BTN_START (gpio cfg 3 AND frame hw ! 3),
              Abs (pad cfg 1) ABS_X (lnot (gpio cfg 3 AND frame hw ! 6) - lnot (gpio cfg 3 AND frame hw ! 7)),
              Abs (pad cfg 1) ABS_Y (lnot (gpio cfg 3 AND frame hw ! 4) - lnot (gpio cfg 3 AND frame hw ! 5)),
              Sync (pad cfg 1),
              Key (pad cfg 2) BTN_A (gpio cfg 2 AND frame hw ! 8),
              Key (pad cfg 2) BTN_B (gpio cfg 2 AND frame hw ! 9),
              Key (pad cfg 2) BTN_SELECT (gpio cfg 2 AND frame hw ! 10),
              Key (pad cfg 2) BTN_START (gpio cfg 2 AND frame hw ! 11),
              Abs (pad cfg 2) ABS_X (lnot (gpio cfg 2 AND frame hw ! 14) - lnot (gpio cfg 2 AND frame hw ! 15)),
              Abs (pad cfg 2) ABS_Y (lnot (gpio cfg 2 AND frame hw ! 12) - lnot (gpio cfg 2 AND frame hw ! 13)),
              Sync (pad cfg 2),
              Key (pad cfg 3) BTN_A (gpio cfg 3 AND frame hw ! 8),
              Key (pad cfg 3) BTN_B (gpio cfg 3 AND frame hw ! 9),
              Key (pad cfg 3) BTN_SELECT (gpio cfg 3 AND frame hw ! 10),
              Key (pad cfg 3) BTN_START (gpio cfg 3 AND frame hw ! 11),
              Abs (pad cfg 3) ABS_X (lnot (gpio cfg 3 AND frame hw ! 14) - lnot (gpio cfg 3 AND frame hw ! 15)),
              Abs (pad cfg 3) ABS_Y (lnot (gpio cfg 3 AND frame hw ! 12) - lnot (gpio cfg 3 AND frame hw ! 13)),
              Sync (pad cfg 3)]"
    by (simp only: fourscore_report_12_first fourscore_report_12_second
        fourscore_report_34_unfold append_Cons append_Nil)
next
  fix ids env sc
  assume i: "snescon_init (snescon_config_load ids True) env = Inr (0, sc)
            \<and> pad cfg = pad (pads_cfg sc)"
  {
    assume l: "length ids = 4"
    from i l snescon_init_fourscore_pads [of ids env sc]
    show "unat (n_pads (pads_cfg sc)) = 2" "unat (n_pad_gpios (pads_cfg sc)) = 2"
      "pad cfg 0 \<noteq> NULL" "pad cfg 1 \<noteq> NULL" "pad cfg 2 = NULL" "pad cfg 3 = NULL"
      by simp_all
  }
  {
    assume l: "length ids = 5"
    from i l snescon_init_fourscore_pads [of ids env sc]
    show "unat (n_pads (pads_cfg sc)) = 3" "unat (n_pad_gpios (pads_cfg sc)) = 3"
      "pad cfg 0 \<noteq> NULL" "pad cfg 1 \<noteq> NULL" "pad cfg 2 \<noteq> NULL" "pad cfg 3 = NULL"
      by simp_all
  }
qed

theorem fourscore_reports_unallocated_pads_witness:
  "fourscore_enabled cfg_4pin \<and> fourscore_connected cfg_4pin (frame hw_fourscore) \<and>
   player_mode cfg_4pin \<le> 4 \<and>
   snescon_init (snescon_config_load [2, 3, 4, 7] True) env_ok =
     Inr (0, (snescon_config_load [2, 3, 4, 7] True)\<lparr>pads_cfg := cfg_4pin\<rparr>) \<and>
   length [2, 3, 4, 7 :: 32 word] = 4 \<and>
   (\<exists>cfg' hw' evs. pads_update cfg_4pin hw_fourscore = Inr (cfg', hw', evs) \<and>
      take 28 evs =
        [Key (Dev 0) BTN_A 0, Key (Dev 0) BTN_B 0, Key (Dev 0) BTN_SELECT 0, Key (Dev 0) BTN_START 0,
           Abs (Dev 0) ABS_X 0, Abs (Dev 0) ABS_Y 0, Sync (Dev 0),
           Key (Dev 1) BTN_A 0, Key (Dev 1) BTN_B 0, Key (Dev 1) BTN_SELECT 0, Key (Dev 1) BTN_START 0,
           Abs (Dev 1) ABS_X 0, Abs (Dev 1) ABS_Y 0, Sync (Dev 1),
           Key NULL BTN_A 0, Key NULL BTN_B 0, Key NULL BTN_SELECT 0, Key NULL BTN_START 0,
           Abs NULL ABS_X 0, Abs NULL ABS_Y 0, Sync NULL,
           Key NULL BTN_A 0, Key NULL BTN_B 0, Key NULL BTN_SELECT 0, Key NULL BTN_START 0,
           Abs NULL ABS_X 0, Abs NULL ABS_Y 0, Sync NULL]) \<and>
   unat (n_pad_gpios cfg_4pin) = 2 \<and> pad cfg_4pin 2 = NULL \<and> pad cfg_4pin 3 = NULL"
proof -
  have en: "fourscore_enabled cfg_4pin" and co: "fourscore_connected cfg_4pin (frame hw_fourscore)"
    using cfg_4pin_fourscore by simp_all
  have pm: "player_mode cfg_4pin \<le> 4" by (simp add: cfg_4pin_def)
  have pm': "player_mode cfg_4pin \<le> 4 \<or> (1 \<le> n_pads cfg_4pin \<and> n_pads cfg_4pin \<le> 5)"
    using pm by simp
  note th = fourscore_reports_unallocated_pads [OF en co pm']
  from th have
    a: "\<exists>cfg' hw' evs. pads_update cfg_4pin hw_fourscore = Inr (cfg', hw', evs) \<and>
      take 28 evs =
        [Key (Dev 0) BTN_A 0, Key (Dev 0) BTN_B 0, Key (Dev 0) BTN_SELECT 0, Key (Dev 0) BTN_START 0,
           Abs (Dev 0) ABS_X 0, Abs (Dev 0) ABS_Y 0, Sync (Dev 0),
           Key (Dev 1) BTN_A 0, Key (Dev 1) BTN_B 0, Key (Dev 1) BTN_SELECT 0, Key (Dev 1) BTN_START 0,
           Abs (Dev 1) ABS_X 0, Abs (Dev 1) ABS_Y 0, Sync (Dev 1),
           Key NULL BTN_A 0, Key NULL BTN_B 0, Key NULL BTN_SELECT 0, Key NULL BTN_START 0,
           Abs NULL ABS_X 0, Abs NULL ABS_Y 0, Sync NULL,
           Key NULL BTN_A 0, Key NULL BTN_B 0, Key NULL BTN_SELECT 0, Key NULL BTN_START 0,
           Abs NULL ABS_X 0, Abs NULL ABS_Y 0, Sync NULL]"
    by (simp add: cfg_4pin_def hw_fourscore_def frame_samples lnot_def)
  let ?sc = "(snescon_config_load [2, 3, 4, 7] True)\<lparr>pads_cfg := cfg_4pin\<rparr>"
  have i: "snescon_init (snescon_config_load [2, 3, 4, 7] True) env_ok = Inr (0, ?sc)
        \<and> pad cfg_4pin = pad (pads_cfg ?sc)"
    using snescon_init_4pin by simp
  have l: "length [2, 3, 4, 7 :: 32 word] = 4" by simp
  from th [THEN conjunct2, rule_format, OF i, THEN conjunct1, rule_format, OF l]
  have "unat (n_pad_gpios cfg_4pin) = 2 \<and> pad cfg_4pin 2 = NULL \<and> pad cfg_4pin 3 = NULL"
    by simp
  with a en co pm snescon_init_4pin show ?thesis by simp
qed

subsection \<open>Start-up validation\<close>

text \<open>
  Claim C9, evaluated on \<open>gpio=2,3,260\<close>: 260 is not one of the valid GPIO
  numbers 0 to 27, yet \<open>snescon_init\<close> returns 0 and configures the data line as
  GPIO 4. \<open>gpio_list_valid\<close> passes each \<open>unsigned int\<close> identifier to
  \<open>gpio_valid(unsigned char)\<close>, which sees it modulo 256.
\<close>

theorem snescon_init_accepts_pin_260:
  "(260 :: 32 word) \<notin> set (map ucast all_valid_gpio) \<and>
   snescon_init (snescon_config_load [2, 3, 260] False) env_ok =
     Inr (0, (snescon_config_load [2, 3, 260] False)\<lparr>pads_cfg := cfg_3pin\<rparr>)"
proof
  show "(260 :: 32 word) \<notin> set (map ucast all_valid_gpio)"
    by (simp add: all_valid_gpio_def)
  show "snescon_init (snescon_config_load [2, 3, 260] False) env_ok =
     Inr (0, (snescon_config_load [2, 3, 260] False)\<lparr>pads_cfg := cfg_3pin\<rparr>)"
    by (simp add: init_eval cfg_3pin_def)
qed

end
